theory Spec2Isabelle
  imports Main "HOL-Library.Word" "HOL-Library.Sublist"
begin

section \<open>JavaScript strings\<close>

text \<open>
  A JavaScript string is a sequence of UTF-16 code units. String literals of the source
  are ASCII and are written \<open>js ''...''\<close>.
\<close>

type_synonym jsstring = "16 word list"

definition js :: "string \<Rightarrow> jsstring" where
  "js s = map of_char s"

text \<open>
  The white space of \<^verbatim>\<open>String.prototype.trim\<close> and of the regular-expression class
  \<^verbatim>\<open>\s\<close>: ECMAScript's WhiteSpace and LineTerminator code points (TAB, LF, VT, FF, CR,
  SP, NBSP, U+1680, U+2000..U+200A, LS, PS, U+202F, U+205F, U+3000, BOM).
\<close>

definition is_space :: "16 word \<Rightarrow> bool" where
  "is_space c \<longleftrightarrow>
     c = 0x9 \<or> c = 0xA \<or> c = 0xB \<or> c = 0xC \<or> c = 0xD \<or> c = 0x20 \<or> c = 0xA0 \<or>
     c = 0x1680 \<or> (0x2000 \<le> c \<and> c \<le> 0x200A) \<or> c = 0x2028 \<or> c = 0x2029 \<or>
     c = 0x202F \<or> c = 0x205F \<or> c = 0x3000 \<or> c = 0xFEFF"

definition trim :: "jsstring \<Rightarrow> jsstring" where
  "trim s = rev (dropWhile is_space (rev (dropWhile is_space s)))"

text \<open>\<^verbatim>\<open>xs.join(sep)\<close> on an array of strings.\<close>

fun join :: "jsstring \<Rightarrow> jsstring list \<Rightarrow> jsstring" where
  "join sep [] = []"
| "join sep [x] = x"
| "join sep (x # y # ys) = x @ sep @ join sep (y # ys)"

text \<open>\<^verbatim>\<open>s.split(c)\<close> for a one-character separator: always at least one piece.\<close>

fun split :: "16 word \<Rightarrow> jsstring \<Rightarrow> jsstring list" where
  "split sep [] = [[]]"
| "split sep (c # cs) =
     (if c = sep then [] # split sep cs
      else (case split sep cs of
              [] \<Rightarrow> [[c]]
            | p # ps \<Rightarrow> (c # p) # ps))"


section \<open>Backtracking regular expressions\<close>

text \<open>
  The matchers follow the continuation semantics of ECMAScript regular expressions: a
  matcher receives the rest of the input and a continuation for what follows it in the
  pattern, and tries its alternatives in priority order until the continuation succeeds.
\<close>

type_synonym 'r cont = "jsstring \<Rightarrow> 'r option"

text \<open>A literal text.\<close>

definition re_lit :: "jsstring \<Rightarrow> 'r cont \<Rightarrow> jsstring \<Rightarrow> 'r option" where
  "re_lit w k s = (if prefix w s then k (drop (length w) s) else None)"

text \<open>\<^verbatim>\<open>a|b\<close>: the left alternative first.\<close>

definition re_alt ::
  "('r cont \<Rightarrow> jsstring \<Rightarrow> 'r option) \<Rightarrow> ('r cont \<Rightarrow> jsstring \<Rightarrow> 'r option) \<Rightarrow>
   'r cont \<Rightarrow> jsstring \<Rightarrow> 'r option" where
  "re_alt m1 m2 k s = (case m1 k s of Some r \<Rightarrow> Some r | None \<Rightarrow> m2 k s)"

text \<open>\<^verbatim>\<open>a?\<close> (greedy): with \<open>a\<close> first, then without.\<close>

definition re_opt ::
  "('r cont \<Rightarrow> jsstring \<Rightarrow> 'r option) \<Rightarrow> 'r cont \<Rightarrow> jsstring \<Rightarrow> 'r option" where
  "re_opt m k s = (case m k s of Some r \<Rightarrow> Some r | None \<Rightarrow> k s)"

text \<open>\<^verbatim>\<open>[class]*\<close> (greedy): the longest run first, giving characters back one at a time.\<close>

fun re_star :: "(16 word \<Rightarrow> bool) \<Rightarrow> 'r cont \<Rightarrow> jsstring \<Rightarrow> 'r option" where
  "re_star P k [] = k []"
| "re_star P k (c # cs) =
     (if P c
      then (case re_star P k cs of Some r \<Rightarrow> Some r | None \<Rightarrow> k (c # cs))
      else k (c # cs))"

text \<open>
  \<^verbatim>\<open>([class]*?)\<close> (lazy, capturing): the shortest run first, taking one more character
  each time the continuation fails. The continuation receives the captured text.
\<close>

fun re_lazy_group ::
  "(16 word \<Rightarrow> bool) \<Rightarrow> (jsstring \<Rightarrow> 'r cont) \<Rightarrow> jsstring \<Rightarrow> jsstring \<Rightarrow> 'r option" where
  "re_lazy_group P k cap [] = k cap []"
| "re_lazy_group P k cap (c # cs) =
     (case k cap (c # cs) of
        Some r \<Rightarrow> Some r
      | None \<Rightarrow> if P c then re_lazy_group P k (cap @ [c]) cs else None)"

text \<open>\<^verbatim>\<open>regex.exec(s)\<close> from index 0: the leftmost start position that matches.\<close>

fun regex_exec :: "(jsstring \<Rightarrow> 'r option) \<Rightarrow> jsstring \<Rightarrow> 'r option" where
  "regex_exec m [] = m []"
| "regex_exec m (c # cs) = (case m (c # cs) of Some r \<Rightarrow> Some r | None \<Rightarrow> regex_exec m cs)"

section \<open>Cleaning the model's response\<close>

definition fence :: jsstring where
  "fence = js ''```''"

definition newline :: jsstring where
  "newline = js ''\<newline>''"

text \<open>
  \<^verbatim>\<open>/```(?:sql|SQL)?\s*\n?([\s\S]*?)\n?```/g\<close>, matched at the start of the given text;
  the result is capture group 1. The pattern is built from its end:
  \<open>re_block_end\<close> is \<^verbatim>\<open>\n?```\<close>, \<open>re_block_body\<close> is \<^verbatim>\<open>([\s\S]*?)\n?```\<close>,
  \<open>re_block_space\<close> is \<^verbatim>\<open>\s*\n?([\s\S]*?)\n?```\<close>.
\<close>

definition re_block_end :: "jsstring \<Rightarrow> jsstring \<Rightarrow> jsstring option" where
  "re_block_end cap = re_opt (re_lit newline) (re_lit fence (\<lambda>rest. Some cap))"

definition re_block_body :: "jsstring \<Rightarrow> jsstring option" where
  "re_block_body = re_lazy_group (\<lambda>c. True) re_block_end []"

definition re_block_space :: "jsstring \<Rightarrow> jsstring option" where
  "re_block_space = re_star is_space (re_opt (re_lit newline) re_block_body)"

definition codeblockRegex :: "jsstring \<Rightarrow> jsstring option" where
  "codeblockRegex =
     re_lit fence (re_opt (re_alt (re_lit (js ''sql'')) (re_lit (js ''SQL''))) re_block_space)"

text \<open>\<^verbatim>\<open>cleanLLMResponse(response)\<close>; the empty string is falsy and is returned as it is.\<close>

definition cleanLLMResponse :: "jsstring \<Rightarrow> jsstring" where
  "cleanLLMResponse response =
     (if response = [] then response
      else (case regex_exec codeblockRegex response of
              Some cap \<Rightarrow> trim cap
            | None \<Rightarrow> trim response))"

text \<open>
  The reading of the specification: the text before the first fence and the text after
  it; an optional tag \<^verbatim>\<open>sql\<close> or \<^verbatim>\<open>SQL\<close> right after the opening fence; the content
  of the first fenced block is what lies between the tag and the next fence.
\<close>

fun split_fence :: "jsstring \<Rightarrow> (jsstring \<times> jsstring) option" where
  "split_fence [] = None"
| "split_fence (c # cs) =
     (if prefix fence (c # cs) then Some ([], drop 3 (c # cs))
      else map_option (\<lambda>(body, rest). (c # body, rest)) (split_fence cs))"

definition strip_tag :: "jsstring \<Rightarrow> jsstring" where
  "strip_tag r = (if prefix (js ''sql'') r \<or> prefix (js ''SQL'') r then drop 3 r else r)"

text \<open>A capture that ends in a line feed loses it to the \<^verbatim>\<open>\n?\<close> before the closing fence.\<close>

definition chop_nl :: "jsstring \<Rightarrow> jsstring" where
  "chop_nl b = (if b \<noteq> [] \<and> last b = 0xA then butlast b else b)"

definition first_fenced_block :: "jsstring \<Rightarrow> jsstring option" where
  "first_fenced_block s =
     (case split_fence s of
        None \<Rightarrow> None
      | Some (before, r) \<Rightarrow> map_option fst (split_fence (strip_tag r)))"

section \<open>HTML escaping\<close>

text \<open>
  \<^verbatim>\<open>escapeHtml(text)\<close> makes the text the \<^verbatim>\<open>textContent\<close> of a fresh \<^verbatim>\<open>div\<close> and reads
  \<^verbatim>\<open>innerHTML\<close> back. The work is the browser's: the HTML Standard serialises a text node
  by "escaping a string" outside attribute mode, which replaces \<^verbatim>\<open>&\<close> by \<^verbatim>\<open>&amp;\<close>,
  U+00A0 (no-break space) by \<^verbatim>\<open>&nbsp;\<close>, \<^verbatim>\<open><\<close> by \<^verbatim>\<open>&lt;\<close> and \<^verbatim>\<open>>\<close> by \<^verbatim>\<open>&gt;\<close>.
  Quotes are not escaped in a text node.
\<close>

definition escape_unit :: "16 word \<Rightarrow> jsstring" where
  "escape_unit c =
     (if c = 0x26 then js ''&amp;''
      else if c = 0xA0 then js ''&nbsp;''
      else if c = 0x3C then js ''&lt;''
      else if c = 0x3E then js ''&gt;''
      else [c])"

definition escapeHtml :: "jsstring \<Rightarrow> jsstring" where
  "escapeHtml text = concat (map escape_unit text)"


section \<open>Engine results\<close>

text \<open>
  A cell of a result row as sql.js returns it is \<^verbatim>\<open>null\<close>, a number, a text or a blob. A
  number is a JavaScript double:
  \<^item> \<open>CNum w\<close> is an integer from \<open>-2\<^sup>5\<^sup>3\<close> to \<open>2\<^sup>5\<^sup>3 - 1\<close>, the signed value of
    a 54-bit word. Every such integer is a double, and JavaScript prints it with all its
    decimal digits.
  \<^item> \<open>CFloat p t\<close> is any other number (a real, or an integer that does not fit): \<open>p\<close>
    is the text that JavaScript prints for it and \<open>t\<close> tells whether it is truthy, that
    is neither 0 nor \<^verbatim>\<open>NaN\<close>. How a double prints is the runtime's business and is taken as
    given.
  \<^item> \<open>CBlob bytes\<close> is a \<^verbatim>\<open>Uint8Array\<close>; it prints as its bytes in decimal, joined by
    commas, and is truthy like every object.
  A result object has \<^verbatim>\<open>columns\<close> and \<^verbatim>\<open>values\<close> (\<open>vals\<close> here).
\<close>

datatype cell =
    CNull
  | CNum "54 word"
  | CFloat jsstring bool
  | CBlob "8 word list"
  | CText jsstring

record sql_result =
  columns :: "jsstring list"
  vals :: "cell list list"

function nat_digits :: "nat \<Rightarrow> jsstring" where
  "nat_digits n =
     (if n < 10 then [0x30 + of_nat n]
      else nat_digits (n div 10) @ [0x30 + of_nat (n mod 10)])"
  by pat_completeness auto
termination
  by (relation "measure (\<lambda>n. n)") auto

definition Number_toString :: "54 word \<Rightarrow> jsstring" where
  "Number_toString w =
     (if sint w < 0 then 0x2D # nat_digits (nat (- sint w)) else nat_digits (nat (sint w)))"

text \<open>\<^verbatim>\<open>String(cell)\<close>, also the conversion of a template literal.\<close>

fun cell_String :: "cell \<Rightarrow> jsstring" where
  "cell_String CNull = js ''null''"
| "cell_String (CNum w) = Number_toString w"
| "cell_String (CFloat p t) = p"
| "cell_String (CBlob bytes) = join (js '','') (map (\<lambda>b. nat_digits (unat b)) bytes)"
| "cell_String (CText t) = t"

text \<open>\<^verbatim>\<open>row.join(sep)\<close> on cells: \<^verbatim>\<open>null\<close> becomes the empty text.\<close>

fun cell_joined :: "cell \<Rightarrow> jsstring" where
  "cell_joined CNull = []"
| "cell_joined c = cell_String c"

text \<open>
  \<^verbatim>\<open>row[i]\<close>: \<open>None\<close> is \<^verbatim>\<open>undefined\<close>, read beyond the end of the row. Such a value
  in a template literal prints as \<^verbatim>\<open>undefined\<close>, and is falsy; so are \<^verbatim>\<open>null\<close>, 0 and
  the empty text.
\<close>

definition at :: "cell list \<Rightarrow> nat \<Rightarrow> cell option" where
  "at row i = (if i < length row then Some (row ! i) else None)"

fun tmpl :: "cell option \<Rightarrow> jsstring" where
  "tmpl None = js ''undefined''"
| "tmpl (Some c) = cell_String c"

fun truthy :: "cell option \<Rightarrow> bool" where
  "truthy None = False"
| "truthy (Some CNull) = False"
| "truthy (Some (CNum w)) = (w \<noteq> 0)"
| "truthy (Some (CFloat p t)) = t"
| "truthy (Some (CBlob bytes)) = True"
| "truthy (Some (CText t)) = (t \<noteq> [])"

section \<open>Rendered output\<close>

text \<open>
  \<^verbatim>\<open>renderQueryResults(result)\<close>: the counts of the header line, the argument of the CSV
  export button (the result, as JSON), the escaped column names, the escaped cells of the
  first 100 rows, and whether the notice of truncation follows the table.
\<close>

record results_view =
  displayRows :: nat
  totalRows :: nat
  export_arg :: sql_result
  table_head :: "jsstring list"
  table_body :: "jsstring list list"
  truncated :: bool

definition renderQueryResults :: "sql_result \<Rightarrow> results_view" where
  "renderQueryResults result =
     (let totalRows = length (vals result);
          displayRows = min totalRows 100
      in \<lparr>displayRows = displayRows,
          totalRows = totalRows,
          export_arg = result,
          table_head = map escapeHtml (columns result),
          table_body =
            map (map (\<lambda>cell. if cell = CNull then js ''<i>NULL</i>''
                              else escapeHtml (cell_String cell)))
              (take displayRows (vals result)),
          truncated = (totalRows > displayRows)\<rparr>)"

text \<open>
  The pieces of markup that \<^verbatim>\<open>executeNLQuery\<close> and \<^verbatim>\<open>runSQL\<close> put into their result
  panes, one constructor for each template of the source, with the interpolated texts as
  arguments:
  \<^item> \<open>Spinner\<close>: the spinner shown while the pipeline runs;
  \<^item> \<open>GeneratedSQLCard a p\<close>: the card "Generated SQL", with the argument \<open>a\<close> of the
    copy button's \<^verbatim>\<open>copySQLToEditor\<close> call and the text \<open>p\<close> of the code block;
  \<^item> \<open>Results v\<close>: what \<^verbatim>\<open>renderQueryResults\<close> returns;
  \<^item> \<open>AnswerCard e\<close>: the card "Answer" with the explanation;
  \<^item> \<open>NoResultsWarning\<close>: "Query returned no results";
  \<^item> \<open>SqlErrorAlert m\<close>: "SQL Error: m";
  \<^item> \<open>AttemptingFix\<close>: "Attempting to fix SQL...";
  \<^item> \<open>FixedSQLCard p\<close>: the card "Fixed SQL";
  \<^item> \<open>FixedAlsoFailed m\<close>: "Fixed SQL also failed: m";
  \<^item> \<open>ErrorAlert m\<close>: "Error: m";
  \<^item> \<open>SuccessNoResults\<close>: "Query executed successfully (no results to display)";
  \<^item> \<open>StatementHeading i\<close>: the heading "Statement i".
\<close>

datatype block =
    Spinner
  | GeneratedSQLCard jsstring jsstring
  | Results results_view
  | AnswerCard jsstring
  | NoResultsWarning
  | SqlErrorAlert jsstring
  | AttemptingFix
  | FixedSQLCard jsstring
  | FixedAlsoFailed jsstring
  | ErrorAlert jsstring
  | SuccessNoResults
  | StatementHeading nat

section \<open>Application state, engine and network\<close>

record llm_settings =
  provider :: jsstring
  apiKey :: jsstring
  model_openai :: jsstring
  model_gemini :: jsstring
  model_groq :: jsstring
  customEndpoint :: jsstring

text \<open>
  A request as \<^verbatim>\<open>fetch\<close> receives it. The two body shapes are the chat-completion body
  (model, system message, user message) and the generate-content body (text); the
  temperature 0.1 and the limit of 500 tokens are the same in every request.
\<close>

datatype request_body = ChatCompletion jsstring jsstring jsstring | GenerateContent jsstring

record request =
  endpoint :: jsstring
  headers :: "(jsstring \<times> jsstring) list"
  body :: request_body

text \<open>
  What comes back: the promise is rejected with an error message, or there is a response
  with \<^verbatim>\<open>ok\<close>, \<^verbatim>\<open>statusText\<close> and a body. A body either holds a completion text at the
  provider's path or is malformed: reading it throws, with the given message.
\<close>

datatype payload = Completion jsstring | Malformed jsstring

datatype response = Rejected jsstring | Response bool jsstring payload

text \<open>
  The network answers a request according to the number of requests made before it. The
  engine \<^verbatim>\<open>db.exec(sql)\<close> returns the result objects, or throws an error with a message
  (\<open>Inl\<close>); either way it leaves a database behind.
\<close>

type_synonym network = "nat \<Rightarrow> request \<Rightarrow> response"

type_synonym 'db engine = "'db \<Rightarrow> jsstring \<Rightarrow> (jsstring + sql_result list) \<times> 'db"

text \<open>
  The fields of the application and of the page that the two entry points read and
  write; \<open>fetched\<close> and \<open>executed\<close> record every call of \<^verbatim>\<open>fetch\<close> and of \<^verbatim>\<open>db.exec\<close>,
  oldest first.
\<close>

record 'db app =
  db :: "'db option"
  settings :: llm_settings
  nlInput :: jsstring
  nlResults :: "block list"
  sqlEditor :: jsstring
  sqlResults :: "block list"
  activeTab :: jsstring
  settingsModal :: bool
  alerts :: "(jsstring \<times> jsstring) list"
  queryHistory :: "jsstring list"
  fetched :: "request list"
  executed :: "jsstring list"

definition showAlert :: "jsstring \<Rightarrow> jsstring \<Rightarrow> 'db app \<Rightarrow> 'db app" where
  "showAlert message type st = st\<lparr>alerts := alerts st @ [(message, type)]\<rparr>"

definition openSettingsModal :: "'db app \<Rightarrow> 'db app" where
  "openSettingsModal st = st\<lparr>settingsModal := True\<rparr>"

definition addToHistory :: "jsstring \<Rightarrow> 'db app \<Rightarrow> 'db app" where
  "addToHistory query st = st\<lparr>queryHistory := take 10 (query # queryHistory st)\<rparr>"


text \<open>
  \<^verbatim>\<open>this.db.exec(sql)\<close>. Every caller checks \<^verbatim>\<open>this.db\<close> first; on \<^verbatim>\<open>null\<close> the call would
  throw a TypeError.
\<close>

definition db_exec ::
  "'db engine \<Rightarrow> jsstring \<Rightarrow> 'db app \<Rightarrow> (jsstring + sql_result list) \<times> 'db app" where
  "db_exec E sql st =
     (case db st of
        None \<Rightarrow>
          (Inl (js ''Cannot read properties of null (reading '' @ [0x27] @ js ''exec'' @ [0x27] @
                js '')''), st)
      | Some d \<Rightarrow>
          (case E d sql of
             (r, d') \<Rightarrow> (r, st\<lparr>db := Some d', executed := executed st @ [sql]\<rparr>)))"

section \<open>The provider adapter\<close>

definition system_message :: jsstring where
  "system_message =
     js ''You are a SQL expert. Respond only with SQL queries or brief explanations as requested.''"

text \<open>
  The part that the three branches of \<^verbatim>\<open>callLLM\<close> share: the request is sent; a response
  that is not \<^verbatim>\<open>ok\<close> throws \<^verbatim>\<open><label> API error: <statusText>\<close>; otherwise the completion
  text is read from the body and cleaned.
\<close>

definition fetch_completion ::
  "network \<Rightarrow> jsstring \<Rightarrow> request \<Rightarrow> 'db app \<Rightarrow> (jsstring + jsstring) \<times> 'db app" where
  "fetch_completion F label req st =
     (let st' = st\<lparr>fetched := fetched st @ [req]\<rparr>
      in case F (length (fetched st)) req of
           Rejected message \<Rightarrow> (Inl message, st')
         | Response ok statusText data \<Rightarrow>
             if \<not> ok then (Inl (label @ js '' API error: '' @ statusText), st')
             else (case data of
                     Malformed message \<Rightarrow> (Inl message, st')
                   | Completion text \<Rightarrow> (Inr (cleanLLMResponse text), st')))"

definition callLLM ::
  "network \<Rightarrow> jsstring \<Rightarrow> 'db app \<Rightarrow> (jsstring + jsstring) \<times> 'db app" where
  "callLLM F prompt st =
     (let provider = provider (settings st);
          apiKey = apiKey (settings st);
          custom = customEndpoint (settings st)
      in if provider = js ''openai'' then
           fetch_completion F (js ''OpenAI'')
             \<lparr>endpoint =
                (if custom \<noteq> [] then custom
                 else js ''https://api.openai.com/v1/chat/completions''),
              headers = [(js ''Content-Type'', js ''application/json''),
                         (js ''Authorization'', js ''Bearer '' @ apiKey)],
              body = ChatCompletion (model_openai (settings st)) system_message prompt\<rparr> st
         else if provider = js ''gemini'' then
           fetch_completion F (js ''Gemini'')
             \<lparr>endpoint =
                (if custom \<noteq> [] then custom
                 else js ''https://generativelanguage.googleapis.com/v1beta/models/'' @
                      model_gemini (settings st) @ js '':generateContent?key='' @ apiKey),
              headers = [(js ''Content-Type'', js ''application/json'')],
              body = GenerateContent prompt\<rparr> st
         else if provider = js ''groq'' then
           fetch_completion F (js ''Groq'')
             \<lparr>endpoint =
                (if custom \<noteq> [] then custom
                 else js ''https://api.groq.com/openai/v1/chat/completions''),
              headers = [(js ''Content-Type'', js ''application/json''),
                         (js ''Authorization'', js ''Bearer '' @ apiKey)],
              body = ChatCompletion (model_groq (settings st)) system_message prompt\<rparr> st
         else (Inl (js ''Unknown LLM provider''), st))"

section \<open>The prompts\<close>

definition generate_prompt :: "jsstring \<Rightarrow> jsstring \<Rightarrow> jsstring" where
  "generate_prompt naturalQuery schema =
     js ''Given the following database schema:'' @ newline @ newline @
     schema @ newline @ newline @
     js ''Generate a SQL query for this request: '' @ [0x22] @ naturalQuery @ [0x22] @
     newline @ newline @
     js ''Return ONLY the SQL query, no explanations or markdown.''"

definition generateSQL ::
  "network \<Rightarrow> jsstring \<Rightarrow> jsstring \<Rightarrow> 'db app \<Rightarrow> (jsstring + jsstring) \<times> 'db app" where
  "generateSQL F naturalQuery schema st = callLLM F (generate_prompt naturalQuery schema) st"

definition fix_prompt :: "jsstring \<Rightarrow> jsstring \<Rightarrow> jsstring \<Rightarrow> jsstring" where
  "fix_prompt sqlQuery errorMessage schema =
     js ''The following SQL query failed with an error:'' @ newline @ newline @
     js ''SQL Query:'' @ newline @ sqlQuery @ newline @ newline @
     js ''Error:'' @ newline @ errorMessage @ newline @ newline @
     js ''Database Schema:'' @ newline @ schema @ newline @ newline @
     js ''Please fix the SQL query. Return ONLY the corrected SQL, no explanations.''"

definition fixSQL ::
  "network \<Rightarrow> jsstring \<Rightarrow> jsstring \<Rightarrow> jsstring \<Rightarrow> 'db app \<Rightarrow>
   (jsstring + jsstring) \<times> 'db app" where
  "fixSQL F sqlQuery errorMessage schema st = callLLM F (fix_prompt sqlQuery errorMessage schema) st"

definition resultsPreview :: "sql_result \<Rightarrow> jsstring" where
  "resultsPreview results =
     join newline (map (\<lambda>row. join (js '', '') (map cell_joined row)) (take 5 (vals results)))"

definition explain_prompt :: "jsstring \<Rightarrow> jsstring \<Rightarrow> sql_result \<Rightarrow> jsstring" where
  "explain_prompt question sqlQuery results =
     js ''Given this question: '' @ [0x22] @ question @ [0x22] @ newline @ newline @
     js ''And this SQL query: '' @ sqlQuery @ newline @ newline @
     js ''Which returned these results (first 5 rows):'' @ newline @
     join (js '', '') (columns results) @ newline @
     resultsPreview results @ newline @ newline @
     js ''Provide a brief, natural language answer to the original question based on the results. Be concise and direct.''"

definition getExplanation ::
  "network \<Rightarrow> jsstring \<Rightarrow> jsstring \<Rightarrow> sql_result \<Rightarrow> 'db app \<Rightarrow>
   (jsstring + jsstring) \<times> 'db app" where
  "getExplanation F question sqlQuery results st =
     callLLM F (explain_prompt question sqlQuery results) st"

section \<open>The schema text\<close>

text \<open>
  A row of \<^verbatim>\<open>PRAGMA table_info\<close> is \<^verbatim>\<open>[cid, name, type, notnull, dflt_value, pk]\<close>; a row of
  \<^verbatim>\<open>PRAGMA foreign_key_list\<close> has the referenced table at index 2, the column at index 3
  and the referenced column at index 4.
\<close>

definition column_line :: "cell list \<Rightarrow> jsstring" where
  "column_line col =
     (let name = at col 1; type = at col 2; notnull = at col 3; pk = at col 5
      in js ''  - '' @ tmpl name @ js '' ('' @ tmpl type @ js '')'' @
         (if truthy pk then js '' PRIMARY KEY'' else []) @
         (if truthy notnull then js '' NOT NULL'' else []) @ newline)"

definition fk_line :: "cell list \<Rightarrow> jsstring" where
  "fk_line fk =
     js ''  - '' @ tmpl (at fk 3) @ js '' -> '' @ tmpl (at fk 2) @ js ''.'' @ tmpl (at fk 4) @
     newline"

definition tables_query :: jsstring where
  "tables_query = js ''SELECT name FROM sqlite_master WHERE type='' @ [0x27] @ js ''table'' @ [0x27]"

definition table_info_query :: "jsstring \<Rightarrow> jsstring" where
  "table_info_query tableName = js ''PRAGMA table_info('' @ tableName @ js '')''"

definition foreign_key_query :: "jsstring \<Rightarrow> jsstring" where
  "foreign_key_query tableName = js ''PRAGMA foreign_key_list('' @ tableName @ js '')''"

text \<open>
  The loop of \<^verbatim>\<open>getSchemaForLLM\<close> over the rows of the table list, with the text built so
  far. An error thrown by the engine leaves the loop.
\<close>

fun schema_tables ::
  "'db engine \<Rightarrow> cell list list \<Rightarrow> jsstring \<Rightarrow> 'db app \<Rightarrow> (jsstring + jsstring) \<times> 'db app" where
  "schema_tables E [] schema st = (Inr schema, st)"
| "schema_tables E (row # rows) schema st =
     (let tableName = tmpl (at row 0);
          schema1 = schema @ js ''Table: '' @ tableName @ newline
      in case db_exec E (table_info_query tableName) st of
           (Inl err, st1) \<Rightarrow> (Inl err, st1)
         | (Inr cres, st1) \<Rightarrow>
             (let schema2 =
                    (case cres of
                       [] \<Rightarrow> schema1
                     | cols # _ \<Rightarrow>
                         schema1 @ js ''Columns:'' @ newline @ concat (map column_line (vals cols)))
              in case db_exec E (foreign_key_query tableName) st1 of
                   (Inl err, st2) \<Rightarrow> (Inl err, st2)
                 | (Inr fres, st2) \<Rightarrow>
                     (let schema3 =
                            (case fres of
                               [] \<Rightarrow> schema2
                             | fks # _ \<Rightarrow>
                                 if vals fks \<noteq> []
                                 then schema2 @ js ''Foreign Keys:'' @ newline @
                                      concat (map fk_line (vals fks))
                                 else schema2)
                      in schema_tables E rows (schema3 @ newline) st2)))"

definition getSchemaForLLM ::
  "'db engine \<Rightarrow> 'db app \<Rightarrow> (jsstring + jsstring) \<times> 'db app" where
  "getSchemaForLLM E st =
     (if db st = None then (Inr [], st)
      else case db_exec E tables_query st of
             (Inl err, st1) \<Rightarrow> (Inl err, st1)
           | (Inr res, st1) \<Rightarrow>
               (case res of
                  [] \<Rightarrow> (Inr [], st1)
                | tables # _ \<Rightarrow> schema_tables E (vals tables) [] st1))"

section \<open>The natural-language pipeline\<close>

text \<open>
  The inner \<^verbatim>\<open>try\<close> block of \<^verbatim>\<open>executeNLQuery\<close>: the generated SQL is executed, the first
  result object is rendered and explained. The block ends normally (\<open>None\<close>) or by an
  error thrown out of it (\<open>Some message\<close>); the markup built so far is kept either way.
\<close>

definition nl_execute ::
  "'db engine \<Rightarrow> network \<Rightarrow> jsstring \<Rightarrow> jsstring \<Rightarrow> block list \<Rightarrow> 'db app \<Rightarrow>
   jsstring option \<times> block list \<times> 'db app" where
  "nl_execute E F query sqlQuery html st =
     (case db_exec E sqlQuery st of
        (Inl sqlError, st1) \<Rightarrow> (Some sqlError, html, st1)
      | (Inr results, st1) \<Rightarrow>
          (case results of
             [] \<Rightarrow> (None, html @ [NoResultsWarning], st1)
           | result # _ \<Rightarrow>
               (let html1 = html @ [Results (renderQueryResults result)]
                in case getExplanation F query sqlQuery result st1 of
                     (Inl err, st2) \<Rightarrow> (Some err, html1, st2)
                   | (Inr explanation, st2) \<Rightarrow> (None, html1 @ [AnswerCard explanation], st2))))"

text \<open>
  The \<^verbatim>\<open>catch (sqlError)\<close> block: the error is shown, the provider is asked for a fixed
  statement, and a fixed statement that is non-empty and differs from the original is
  executed. An error of \<^verbatim>\<open>fixSQL\<close> leaves the block (\<open>Inl\<close>).
\<close>

definition nl_repair ::
  "'db engine \<Rightarrow> network \<Rightarrow> jsstring \<Rightarrow> jsstring \<Rightarrow> jsstring \<Rightarrow> block list \<Rightarrow> 'db app \<Rightarrow>
   (jsstring + block list) \<times> 'db app" where
  "nl_repair E F sqlQuery schema message html st =
     (let html1 = html @ [SqlErrorAlert message, AttemptingFix]
      in case fixSQL F sqlQuery message schema st of
           (Inl err, st1) \<Rightarrow> (Inl err, st1)
         | (Inr fixedSQL, st1) \<Rightarrow>
             if fixedSQL \<noteq> [] \<and> fixedSQL \<noteq> sqlQuery then
               (let html2 = html1 @ [FixedSQLCard (escapeHtml fixedSQL)]
                in case db_exec E fixedSQL st1 of
                     (Inl fixError, st2) \<Rightarrow> (Inr (html2 @ [FixedAlsoFailed fixError]), st2)
                   | (Inr fixedResults, st2) \<Rightarrow>
                       (case fixedResults of
                          [] \<Rightarrow> (Inr html2, st2)
                        | r # _ \<Rightarrow> (Inr (html2 @ [Results (renderQueryResults r)]), st2)))
             else (Inr html1, st1))"

text \<open>The outer \<^verbatim>\<open>try\<close> block, up to the markup that is written to the result pane.\<close>

definition nl_pipeline ::
  "'db engine \<Rightarrow> network \<Rightarrow> jsstring \<Rightarrow> 'db app \<Rightarrow> (jsstring + block list) \<times> 'db app" where
  "nl_pipeline E F query st =
     (case getSchemaForLLM E st of
        (Inl err, st1) \<Rightarrow> (Inl err, st1)
      | (Inr schema, st1) \<Rightarrow>
          (case generateSQL F query schema st1 of
             (Inl err, st2) \<Rightarrow> (Inl err, st2)
           | (Inr sqlQuery, st2) \<Rightarrow>
               (case nl_execute E F query sqlQuery
                       [GeneratedSQLCard (escapeHtml sqlQuery) (escapeHtml sqlQuery)] st2 of
                  (None, html, st3) \<Rightarrow> (Inr html, st3)
                | (Some message, html, st3) \<Rightarrow>
                    nl_repair E F sqlQuery schema message html st3)))"

definition executeNLQuery :: "'db engine \<Rightarrow> network \<Rightarrow> 'db app \<Rightarrow> 'db app" where
  "executeNLQuery E F st =
     (let query = trim (nlInput st)
      in if query = [] then showAlert (js ''Please enter a question'') (js ''warning'') st
         else if db st = None then
           showAlert (js ''Please load a database first'') (js ''warning'') st
         else if apiKey (settings st) = [] then
           openSettingsModal
             (showAlert (js ''Please configure your API key in settings'') (js ''warning'') st)
         else
           (case nl_pipeline E F query (st\<lparr>nlResults := [Spinner]\<rparr>) of
              (Inl err, st') \<Rightarrow> st'\<lparr>nlResults := [ErrorAlert err]\<rparr>
            | (Inr html, st') \<Rightarrow> addToHistory query (st'\<lparr>nlResults := html\<rparr>)))"

section \<open>The SQL editor\<close>




section \<open>Observations on a run\<close>

text \<open>
  The prompt that a request carries, and the requests that ask for a repair: those whose
  prompt opens with the first line of \<^verbatim>\<open>fixSQL\<close>.
\<close>

definition prompt_of :: "request \<Rightarrow> jsstring" where
  "prompt_of req =
     (case body req of
        ChatCompletion model system user \<Rightarrow> user
      | GenerateContent text \<Rightarrow> text)"

definition is_repair_request :: "request \<Rightarrow> bool" where
  "is_repair_request req =
     prefix (js ''The following SQL query failed with an error:'') (prompt_of req)"

definition repair_calls :: "'db app \<Rightarrow> nat" where
  "repair_calls st = length (filter is_repair_request (fetched st))"

definition known_provider :: "llm_settings \<Rightarrow> bool" where
  "known_provider s \<longleftrightarrow>
     provider s = js ''openai'' \<or> provider s = js ''gemini'' \<or> provider s = js ''groq''"

text \<open>
  The label and the request that \<^verbatim>\<open>callLLM\<close> builds for the configured provider; \<open>None\<close>
  for a provider that it does not know.
\<close>

definition llm_request :: "llm_settings \<Rightarrow> jsstring \<Rightarrow> (jsstring \<times> request) option" where
  "llm_request s prompt =
     (if provider s = js ''openai'' then
        Some (js ''OpenAI'',
          \<lparr>endpoint =
             (if customEndpoint s \<noteq> [] then customEndpoint s
              else js ''https://api.openai.com/v1/chat/completions''),
           headers = [(js ''Content-Type'', js ''application/json''),
                      (js ''Authorization'', js ''Bearer '' @ apiKey s)],
           body = ChatCompletion (model_openai s) system_message prompt\<rparr>)
      else if provider s = js ''gemini'' then
        Some (js ''Gemini'',
          \<lparr>endpoint =
             (if customEndpoint s \<noteq> [] then customEndpoint s
              else js ''https://generativelanguage.googleapis.com/v1beta/models/'' @
                   model_gemini s @ js '':generateContent?key='' @ apiKey s),
           headers = [(js ''Content-Type'', js ''application/json'')],
           body = GenerateContent prompt\<rparr>)
      else if provider s = js ''groq'' then
        Some (js ''Groq'',
          \<lparr>endpoint =
             (if customEndpoint s \<noteq> [] then customEndpoint s
              else js ''https://api.groq.com/openai/v1/chat/completions''),
           headers = [(js ''Content-Type'', js ''application/json''),
                      (js ''Authorization'', js ''Bearer '' @ apiKey s)],
           body = ChatCompletion (model_groq s) system_message prompt\<rparr>)
      else None)"

text \<open>
  The block of the schema text for one table, from the table's name and the engine's
  answers to the two pragmas.
\<close>

definition table_block :: "jsstring \<Rightarrow> sql_result list \<Rightarrow> sql_result list \<Rightarrow> jsstring" where
  "table_block tableName cres fres =
     js ''Table: '' @ tableName @ newline @
     (case cres of
        [] \<Rightarrow> []
      | cols # _ \<Rightarrow> js ''Columns:'' @ newline @ concat (map column_line (vals cols))) @
     (case fres of
        [] \<Rightarrow> []
      | fks # _ \<Rightarrow>
          if vals fks \<noteq> []
          then js ''Foreign Keys:'' @ newline @ concat (map fk_line (vals fks))
          else []) @
     newline"







section \<open>Example worlds\<close>

definition example_settings :: llm_settings where
  "example_settings =
     \<lparr>provider = js ''openai'', apiKey = js ''sk-test'',
      model_openai = js ''gpt-3.5-turbo'', model_gemini = js ''gemini-pro'',
      model_groq = js ''mixtral-8x7b-32768'', customEndpoint = []\<rparr>"

text \<open>A page with a loaded database, the given question and the given editor text.\<close>

definition example_app :: "jsstring \<Rightarrow> jsstring \<Rightarrow> unit app" where
  "example_app question editor =
     \<lparr>db = Some (), settings = example_settings, nlInput = question, nlResults = [],
      sqlEditor = editor, sqlResults = [], activeTab = js ''nl-query'', settingsModal = False,
      alerts = [], queryHistory = [], fetched = [], executed = []\<rparr>"

text \<open>An engine with no tables that rejects \<^verbatim>\<open>SELECT x\<close>, and a provider that always
  answers \<^verbatim>\<open>SELECT x\<close>.\<close>

definition rejecting_engine :: "unit engine" where
  "rejecting_engine d sql =
     (if sql = js ''SELECT x'' then (Inl (js ''no such column: x''), d) else (Inr [], d))"

definition stubborn_network :: network where
  "stubborn_network n req = Response True (js ''OK'') (Completion (js ''SELECT x''))"

text \<open>A provider that answers \<^verbatim>\<open>SELECT y\<close> to a repair request.\<close>

definition second_try_network :: network where
  "second_try_network n req =
     Response True (js ''OK'') (Completion (if n = 0 then js ''SELECT x'' else js ''SELECT y''))"

definition rejecting_both_engine :: "unit engine" where
  "rejecting_both_engine d sql =
     (if sql = js ''SELECT x'' then (Inl (js ''no such column: x''), d)
      else if sql = js ''SELECT y'' then (Inl (js ''no such column: y''), d)
      else (Inr [], d))"

text \<open>
  An engine with no tables that answers \<^verbatim>\<open>SELECT 1\<close> and \<^verbatim>\<open>SELECT 2\<close> (also with a space in
  front) with one row each, and a provider that generates \<^verbatim>\<open>SELECT 1\<close> and then answers
  every request with status 429.
\<close>

definition one_row :: "jsstring \<Rightarrow> 54 word \<Rightarrow> sql_result" where
  "one_row name v = \<lparr>columns = [name], vals = [[CNum v]]\<rparr>"

definition select_engine :: "unit engine" where
  "select_engine d sql =
     (if sql = js ''SELECT 1'' then (Inr [one_row (js ''1'') 1], d)
      else if sql = js '' SELECT 2'' then (Inr [one_row (js ''2'') 2], d)
      else (Inr [], d))"

definition overloaded_network :: network where
  "overloaded_network n req =
     (if n = 0 then Response True (js ''OK'') (Completion (js ''SELECT 1''))
      else Response False (js ''Too Many Requests'') (Completion []))"

text \<open>An engine whose catalogue lists one table \<^verbatim>\<open>t\<close>, for which both pragmas return no
  result object.\<close>

definition bare_table_engine :: "unit engine" where
  "bare_table_engine d sql =
     (if sql = tables_query then (Inr [\<lparr>columns = [js ''name''], vals = [[CText (js ''t'')]]\<rparr>], d)
      else (Inr [], d))"

text \<open>An engine with one table \<^verbatim>\<open>orders\<close>: an integer primary key \<^verbatim>\<open>id\<close> and a required
  column \<^verbatim>\<open>customer_id\<close> that references \<^verbatim>\<open>customers.id\<close>.\<close>

definition orders_columns :: sql_result where
  "orders_columns =
     \<lparr>columns = [js ''cid'', js ''name'', js ''type'', js ''notnull'', js ''dflt_value'', js ''pk''],
      vals = [[CNum 0, CText (js ''id''), CText (js ''INTEGER''), CNum 0, CNull, CNum 1],
              [CNum 1, CText (js ''customer_id''), CText (js ''INTEGER''), CNum 1, CNull, CNum 0]]\<rparr>"

definition orders_foreign_keys :: sql_result where
  "orders_foreign_keys =
     \<lparr>columns = [js ''id'', js ''seq'', js ''table'', js ''from'', js ''to'', js ''on_update'',
                 js ''on_delete'', js ''match''],
      vals = [[CNum 0, CNum 0, CText (js ''customers''), CText (js ''customer_id''),
               CText (js ''id''), CText (js ''NO ACTION''), CText (js ''NO ACTION''),
               CText (js ''NONE'')]]\<rparr>"

definition orders_tables :: sql_result where
  "orders_tables = \<lparr>columns = [js ''name''], vals = [[CText (js ''orders'')]]\<rparr>"

definition orders_engine :: "unit engine" where
  "orders_engine d sql =
     (if sql = tables_query then (Inr [orders_tables], d)
      else if sql = table_info_query (js ''orders'') then (Inr [orders_columns], d)
      else if sql = foreign_key_query (js ''orders'') then (Inr [orders_foreign_keys], d)
      else (Inr [], d))"



text \<open>A result of six rows; the second row has a \<^verbatim>\<open>null\<close>, the first a text with markup.\<close>

definition six_rows :: sql_result where
  "six_rows =
     \<lparr>columns = [js ''n'', js ''label''],
      vals = [[CNum 1, CText (js ''a<b'')], [CNum 2, CNull], [CNum 3, CText (js ''c'')],
              [CNum 4, CText (js ''d'')], [CNum 5, CText (js ''e'')], [CNum 6, CText (js ''f'')]]\<rparr>"

text \<open>A page whose question is blank, and a page without a credential.\<close>

definition blank_question_app :: "unit app" where
  "blank_question_app = example_app (js ''   '') []"

definition no_key_app :: "unit app" where
  "no_key_app = (example_app (js ''q'') [])\<lparr>settings := example_settings\<lparr>apiKey := []\<rparr>\<rparr>"




section \<open>Effects of the steps on the state\<close>

text \<open>
  What each step of the pipeline changes: \<^verbatim>\<open>db.exec\<close> touches the database and the log of
  executions, \<^verbatim>\<open>callLLM\<close> only the log of requests, to which it adds one request with the
  given prompt unless the provider is unknown.
\<close>

lemma db_exec_Some:
  "db st = Some d \<Longrightarrow> E d sql = (r, d') \<Longrightarrow>
   db_exec E sql st = (r, st\<lparr>db := Some d', executed := executed st @ [sql]\<rparr>)"
  by (simp add: db_exec_def)

lemma db_exec_fetched: "fetched (snd (db_exec E sql st)) = fetched st"
  by (simp add: db_exec_def split: option.splits prod.splits)

lemma db_exec_settings: "settings (snd (db_exec E sql st)) = settings st"
  by (simp add: db_exec_def split: option.splits prod.splits)

lemma db_exec_executed:
  "executed (snd (db_exec E sql st)) = executed st \<or>
   executed (snd (db_exec E sql st)) = executed st @ [sql]"
  by (simp add: db_exec_def split: option.splits prod.splits)

lemma fetch_completion_state:
  "snd (fetch_completion F label req st) = st\<lparr>fetched := fetched st @ [req]\<rparr>"
  by (simp add: fetch_completion_def Let_def split: response.splits payload.splits)

lemma callLLM_request:
  "callLLM F prompt st =
     (case llm_request (settings st) prompt of
        None \<Rightarrow> (Inl (js ''Unknown LLM provider''), st)
      | Some (label, req) \<Rightarrow> fetch_completion F label req st)"
  by (simp add: callLLM_def llm_request_def Let_def)

lemma llm_request_prompt: "llm_request s prompt = Some (label, req) \<Longrightarrow> prompt_of req = prompt"
  by (auto simp: llm_request_def prompt_of_def split: if_splits)

lemma llm_request_None: "llm_request s prompt = None \<longleftrightarrow> \<not> known_provider s"
  by (simp add: llm_request_def known_provider_def)

lemma callLLM_known:
  assumes "known_provider (settings st)"
  shows "\<exists>req. snd (callLLM F prompt st) = st\<lparr>fetched := fetched st @ [req]\<rparr> \<and>
               prompt_of req = prompt"
proof -
  from assms obtain label req where r: "llm_request (settings st) prompt = Some (label, req)"
    by (cases "llm_request (settings st) prompt") (auto simp: llm_request_None)
  then have "snd (callLLM F prompt st) = st\<lparr>fetched := fetched st @ [req]\<rparr>"
    by (simp add: callLLM_request fetch_completion_state)
  with llm_request_prompt [OF r] show ?thesis by blast
qed

lemma callLLM_unknown:
  "\<not> known_provider (settings st) \<Longrightarrow>
   callLLM F prompt st = (Inl (js ''Unknown LLM provider''), st)"
  by (simp add: callLLM_def Let_def known_provider_def)

lemma callLLM_cases:
  "(\<exists>req. snd (callLLM F prompt st) = st\<lparr>fetched := fetched st @ [req]\<rparr> \<and>
          prompt_of req = prompt) \<or>
   callLLM F prompt st = (Inl (js ''Unknown LLM provider''), st)"
proof (cases "known_provider (settings st)")
  case True
  then show ?thesis by (rule callLLM_known [THEN disjI1])
next
  case False
  then show ?thesis by (rule callLLM_unknown [THEN disjI2])
qed

lemma callLLM_Inr_known:
  "callLLM F prompt st = (Inr text, st') \<Longrightarrow> known_provider (settings st)"
  using callLLM_unknown [of st F prompt] by auto

lemma callLLM_settings: "settings (snd (callLLM F prompt st)) = settings st"
  using callLLM_cases [of F prompt st] by auto

lemma callLLM_executed: "executed (snd (callLLM F prompt st)) = executed st"
  using callLLM_cases [of F prompt st] by auto

lemma callLLM_db: "db (snd (callLLM F prompt st)) = db st"
  using callLLM_cases [of F prompt st] by auto

text \<open>
  Only the prompt of \<^verbatim>\<open>fixSQL\<close> opens with the line that marks a repair request, so the
  number of repair requests grows by at most one in a run.
\<close>

lemma generate_prompt_not_repair:
  "\<not> prefix (js ''The following SQL query failed with an error:'') (generate_prompt q schema)"
  by (simp add: generate_prompt_def js_def)

lemma explain_prompt_not_repair:
  "\<not> prefix (js ''The following SQL query failed with an error:'') (explain_prompt q sql r)"
  by (simp add: explain_prompt_def js_def)

lemma fix_prompt_repair:
  "prefix (js ''The following SQL query failed with an error:'') (fix_prompt sql msg schema)"
  by (simp add: fix_prompt_def)

lemma generateSQL_repair_calls:
  "repair_calls (snd (generateSQL F q schema st)) = repair_calls st"
  using callLLM_cases [of F "generate_prompt q schema" st] generate_prompt_not_repair [of q schema]
  by (auto simp: generateSQL_def repair_calls_def is_repair_request_def)

lemma getExplanation_repair_calls:
  "repair_calls (snd (getExplanation F q sql r st)) = repair_calls st"
  using callLLM_cases [of F "explain_prompt q sql r" st] explain_prompt_not_repair [of q sql r]
  by (auto simp: getExplanation_def repair_calls_def is_repair_request_def)

lemma fixSQL_repair_calls:
  "repair_calls (snd (fixSQL F sql msg schema st)) =
     (if known_provider (settings st) then repair_calls st + 1 else repair_calls st)"
  using callLLM_known [of st F "fix_prompt sql msg schema"]
    callLLM_unknown [of st F "fix_prompt sql msg schema"] fix_prompt_repair [of sql msg schema]
  by (auto simp: fixSQL_def repair_calls_def is_repair_request_def)

lemma db_exec_repair_calls: "repair_calls (snd (db_exec E sql st)) = repair_calls st"
  by (simp add: repair_calls_def db_exec_fetched)

lemma schema_tables_fetched: "fetched (snd (schema_tables E rows schema st)) = fetched st"
proof (induction rows arbitrary: schema st)
  case Nil
  show ?case by simp
next
  case (Cons row rows)
  obtain r1 st1 where e1: "db_exec E (table_info_query (tmpl (at row 0))) st = (r1, st1)"
    by (cases "db_exec E (table_info_query (tmpl (at row 0))) st")
  obtain r2 st2 where e2: "db_exec E (foreign_key_query (tmpl (at row 0))) st1 = (r2, st2)"
    by (cases "db_exec E (foreign_key_query (tmpl (at row 0))) st1")
  have f1: "fetched st1 = fetched st"
    using db_exec_fetched [of E "table_info_query (tmpl (at row 0))" st] e1 by simp
  have f2: "fetched st2 = fetched st1"
    using db_exec_fetched [of E "foreign_key_query (tmpl (at row 0))" st1] e2 by simp
  show ?case
    by (cases r1; cases r2) (simp_all add: Let_def e1 e2 f1 f2 Cons.IH)
qed

lemma getSchemaForLLM_fetched: "fetched (snd (getSchemaForLLM E st)) = fetched st"
proof -
  obtain r st1 where e: "db_exec E tables_query st = (r, st1)"
    by (cases "db_exec E tables_query st")
  then have "fetched st1 = fetched st"
    using db_exec_fetched [of E tables_query st] by simp
  with e show ?thesis
    by (cases r) (simp_all add: getSchemaForLLM_def schema_tables_fetched split: list.splits)
qed

lemma getSchemaForLLM_repair_calls: "repair_calls (snd (getSchemaForLLM E st)) = repair_calls st"
  by (simp add: repair_calls_def getSchemaForLLM_fetched)

lemma nl_execute_repair_calls:
  "repair_calls (snd (snd (nl_execute E F query sqlQuery html st))) = repair_calls st"
proof -
  obtain r st1 where e: "db_exec E sqlQuery st = (r, st1)"
    by (cases "db_exec E sqlQuery st")
  then have rc1: "repair_calls st1 = repair_calls st"
    using db_exec_repair_calls [of E sqlQuery st] by simp
  show ?thesis
  proof (cases r)
    case (Inl err)
    with e rc1 show ?thesis by (simp add: nl_execute_def)
  next
    case (Inr results)
    show ?thesis
    proof (cases results)
      case Nil
      with e rc1 Inr show ?thesis by (simp add: nl_execute_def)
    next
      case (Cons result rest)
      obtain x st2 where g: "getExplanation F query sqlQuery result st1 = (x, st2)"
        by (cases "getExplanation F query sqlQuery result st1")
      then have "repair_calls st2 = repair_calls st1"
        using getExplanation_repair_calls [of F query sqlQuery result st1] by simp
      with e rc1 Inr Cons g show ?thesis
        by (cases x) (simp_all add: nl_execute_def Let_def)
    qed
  qed
qed

lemma nl_repair_repair_calls:
  "repair_calls (snd (nl_repair E F sqlQuery schema message html st)) =
     (if known_provider (settings st) then repair_calls st + 1 else repair_calls st)"
proof -
  obtain x st1 where f: "fixSQL F sqlQuery message schema st = (x, st1)"
    by (cases "fixSQL F sqlQuery message schema st")
  then have rc1: "repair_calls st1 =
      (if known_provider (settings st) then repair_calls st + 1 else repair_calls st)"
    using fixSQL_repair_calls [of F sqlQuery message schema st] by simp
  show ?thesis
  proof (cases x)
    case (Inl err)
    with f rc1 show ?thesis by (simp add: nl_repair_def Let_def)
  next
    case (Inr fixedSQL)
    obtain y st2 where e: "db_exec E fixedSQL st1 = (y, st2)"
      by (cases "db_exec E fixedSQL st1")
    then have "repair_calls st2 = repair_calls st1"
      using db_exec_repair_calls [of E fixedSQL st1] by simp
    with f rc1 Inr e show ?thesis
      by (cases y) (simp_all add: nl_repair_def Let_def split: list.splits)
  qed
qed

lemma nl_pipeline_repair_calls:
  "repair_calls (snd (nl_pipeline E F query st)) \<le> repair_calls st + 1"
proof -
  obtain r st1 where s: "getSchemaForLLM E st = (r, st1)"
    by (cases "getSchemaForLLM E st")
  then have rc1: "repair_calls st1 = repair_calls st"
    using getSchemaForLLM_repair_calls [of E st] by simp
  show ?thesis
  proof (cases r)
    case (Inl err)
    with s rc1 show ?thesis by (simp add: nl_pipeline_def)
  next
    case (Inr schema)
    obtain g st2 where gen: "generateSQL F query schema st1 = (g, st2)"
      by (cases "generateSQL F query schema st1")
    then have rc2: "repair_calls st2 = repair_calls st1"
      using generateSQL_repair_calls [of F query schema st1] by simp
    show ?thesis
    proof (cases g)
      case (Inl err)
      with s Inr gen rc1 rc2 show ?thesis by (simp add: nl_pipeline_def)
    next
      case sql: (Inr sqlQuery)
      obtain thrown html st3 where
        x: "nl_execute E F query sqlQuery
              [GeneratedSQLCard (escapeHtml sqlQuery) (escapeHtml sqlQuery)] st2 =
            (thrown, html, st3)"
        by (cases "nl_execute E F query sqlQuery
              [GeneratedSQLCard (escapeHtml sqlQuery) (escapeHtml sqlQuery)] st2") auto
      then have rc3: "repair_calls st3 = repair_calls st2"
        using nl_execute_repair_calls [of E F query sqlQuery
            "[GeneratedSQLCard (escapeHtml sqlQuery) (escapeHtml sqlQuery)]" st2]
        by simp
      show ?thesis
      proof (cases thrown)
        case None
        with s Inr gen sql x rc1 rc2 rc3 show ?thesis by (simp add: nl_pipeline_def)
      next
        case (Some message)
        have "repair_calls (snd (nl_repair E F sqlQuery schema message html st3)) \<le>
            repair_calls st3 + 1"
          by (simp add: nl_repair_repair_calls)
        with s Inr gen sql x Some rc1 rc2 rc3 show ?thesis by (simp add: nl_pipeline_def)
      qed
    qed
  qed
qed

lemma executeNLQuery_repair_calls:
  "repair_calls (executeNLQuery E F st) \<le> repair_calls st + 1"
proof -
  have "repair_calls (snd (nl_pipeline E F (trim (nlInput st)) (st\<lparr>nlResults := [Spinner]\<rparr>))) \<le>
      repair_calls (st\<lparr>nlResults := [Spinner]\<rparr>) + 1"
    by (rule nl_pipeline_repair_calls)
  then show ?thesis
    by (auto simp: executeNLQuery_def Let_def repair_calls_def showAlert_def openSettingsModal_def
        addToHistory_def split: prod.splits sum.splits)
qed

lemma executeNLQuery_run:
  assumes "trim (nlInput st) \<noteq> []" and "db st \<noteq> None" and "apiKey (settings st) \<noteq> []"
  shows "executeNLQuery E F st =
     (case nl_pipeline E F (trim (nlInput st)) (st\<lparr>nlResults := [Spinner]\<rparr>) of
        (Inl err, st') \<Rightarrow> st'\<lparr>nlResults := [ErrorAlert err]\<rparr>
      | (Inr html, st') \<Rightarrow> addToHistory (trim (nlInput st)) (st'\<lparr>nlResults := html\<rparr>))"
  using assms by (auto simp: executeNLQuery_def Let_def)

lemma nl_pipeline_first_execution_fails:
  assumes "getSchemaForLLM E st0 = (Inr schema, st1)"
    and "generateSQL F query schema st1 = (Inr sqlQuery, st2)"
    and "db_exec E sqlQuery st2 = (Inl message, st3)"
  shows "nl_pipeline E F query st0 =
     nl_repair E F sqlQuery schema message
       [GeneratedSQLCard (escapeHtml sqlQuery) (escapeHtml sqlQuery)] st3"
  using assms by (simp add: nl_pipeline_def nl_execute_def)

lemma known_provider_after_generate:
  assumes "generateSQL F query schema st1 = (Inr sqlQuery, st2)"
    and "db_exec E sqlQuery st2 = (r, st3)"
  shows "known_provider (settings st3)"
proof -
  from assms(1) have "known_provider (settings st1)"
    by (auto simp: generateSQL_def dest: callLLM_Inr_known)
  moreover have "settings st2 = settings st1"
    using callLLM_settings [of F "generate_prompt query schema" st1] assms(1)
    by (simp add: generateSQL_def)
  moreover have "settings st3 = settings st2"
    using db_exec_settings [of E sqlQuery st2] assms(2) by simp
  ultimately show ?thesis by simp
qed
section \<open>The pipeline: preconditions, repair and explanation\<close>

text \<open>
  C4. With a blank question, without a loaded database or without a credential,
  \<^verbatim>\<open>executeNLQuery\<close> returns at once: it sends no request, executes no statement, leaves
  the database, the result pane and the history as they are, and shows one warning.
\<close>

theorem executeNLQuery_preconditions:
  assumes "trim (nlInput st) = [] \<or> db st = None \<or> apiKey (settings st) = []"
  shows "fetched (executeNLQuery E F st) = fetched st \<and>
     executed (executeNLQuery E F st) = executed st \<and>
     db (executeNLQuery E F st) = db st \<and>
     nlResults (executeNLQuery E F st) = nlResults st \<and>
     queryHistory (executeNLQuery E F st) = queryHistory st \<and>
     (\<exists>message. alerts (executeNLQuery E F st) = alerts st @ [(message, js ''warning'')])"
  using assms by (auto simp: executeNLQuery_def Let_def showAlert_def openSettingsModal_def)

text \<open>Witness for C4: a question of three spaces, and a page without a credential.\<close>

theorem executeNLQuery_preconditions_witness:
  "trim (nlInput blank_question_app) = [] \<and>
   fetched (executeNLQuery select_engine overloaded_network blank_question_app) = [] \<and>
   executed (executeNLQuery select_engine overloaded_network blank_question_app) = [] \<and>
   apiKey (settings no_key_app) = [] \<and>
   fetched (executeNLQuery select_engine overloaded_network no_key_app) = [] \<and>
   executed (executeNLQuery select_engine overloaded_network no_key_app) = []"
proof -
  have a: "trim (nlInput blank_question_app) = []" by code_simp
  have b: "apiKey (settings no_key_app) = []" by code_simp
  have c: "fetched blank_question_app = []" "executed blank_question_app = []"
    "fetched no_key_app = []" "executed no_key_app = []"
    by (simp_all add: blank_question_app_def no_key_app_def example_app_def)
  from a have "trim (nlInput blank_question_app) = [] \<or> db blank_question_app = None \<or>
      apiKey (settings blank_question_app) = []" by simp
  note w1 = executeNLQuery_preconditions [OF this, of select_engine overloaded_network]
  from b have "trim (nlInput no_key_app) = [] \<or> db no_key_app = None \<or>
      apiKey (settings no_key_app) = []" by simp
  note w2 = executeNLQuery_preconditions [OF this, of select_engine overloaded_network]
  from a b c w1 w2 show ?thesis by simp
qed

text \<open>
  C1, as the specification states it, fails: when the provider answers the repair request
  with the statement that has just failed, the statement is not executed again. In the
  example the engine rejects \<^verbatim>\<open>SELECT x\<close> and the provider answers every request with
  \<^verbatim>\<open>SELECT x\<close>; the log of executions holds the catalogue query and one execution of the
  statement, not two.
\<close>

theorem unchanged_repair_counterexample:
  "fst (fixSQL stubborn_network (js ''SELECT x'') (js ''no such column: x'') []
          (example_app (js ''q'') [])) = Inr (js ''SELECT x'') \<and>
   executed (executeNLQuery rejecting_engine stubborn_network (example_app (js ''q'') [])) =
     [tables_query, js ''SELECT x''] \<and>
   count_list
     (executed (executeNLQuery rejecting_engine stubborn_network (example_app (js ''q'') [])))
     (js ''SELECT x'') \<noteq> 2"
proof -
  have "fst (fixSQL stubborn_network (js ''SELECT x'') (js ''no such column: x'') []
          (example_app (js ''q'') [])) = Inr (js ''SELECT x'')"
    by code_simp
  moreover have
    e: "executed (executeNLQuery rejecting_engine stubborn_network (example_app (js ''q'') [])) =
     [tables_query, js ''SELECT x'']"
    by code_simp
  moreover have "tables_query \<noteq> js ''SELECT x''" by code_simp
  ultimately show ?thesis by simp
qed

text \<open>
  C1, amended. When the first execution fails and the provider answers the repair request
  with the very statement that failed, the statement is not executed again: the guard
  \<^verbatim>\<open>fixedSQL !== sqlQuery\<close> skips the retry. The result pane shows the generated SQL, the
  error of the first execution and the notice of the attempted fix; the question enters
  the history; no statement is executed after the failing one.
\<close>

theorem executeNLQuery_unchanged_repair:
  assumes "trim (nlInput st) \<noteq> []" and "db st \<noteq> None" and "apiKey (settings st) \<noteq> []"
    and "getSchemaForLLM E (st\<lparr>nlResults := [Spinner]\<rparr>) = (Inr schema, st1)"
    and "generateSQL F (trim (nlInput st)) schema st1 = (Inr sqlQuery, st2)"
    and "db_exec E sqlQuery st2 = (Inl message, st3)"
    and "fixSQL F sqlQuery message schema st3 = (Inr sqlQuery, st4)"
  shows "executeNLQuery E F st =
       addToHistory (trim (nlInput st))
         (st4\<lparr>nlResults := [GeneratedSQLCard (escapeHtml sqlQuery) (escapeHtml sqlQuery),
                              SqlErrorAlert message, AttemptingFix]\<rparr>) \<and>
     executed (executeNLQuery E F st) = executed st3"
proof -
  have run: "executeNLQuery E F st =
       addToHistory (trim (nlInput st))
         (st4\<lparr>nlResults := [GeneratedSQLCard (escapeHtml sqlQuery) (escapeHtml sqlQuery),
                              SqlErrorAlert message, AttemptingFix]\<rparr>)"
    by (simp add: executeNLQuery_run [OF assms(1-3)]
        nl_pipeline_first_execution_fails [OF assms(4-6)] nl_repair_def assms(7))
  have "executed st4 = executed st3"
    using callLLM_executed [of F "fix_prompt sqlQuery message schema" st3] assms(7)
    by (simp add: fixSQL_def)
  with run show ?thesis by (simp add: addToHistory_def)
qed

text \<open>Witness for C1: the engine that rejects \<^verbatim>\<open>SELECT x\<close>, the provider that insists on it.\<close>

theorem executeNLQuery_unchanged_repair_witness:
  "nlResults (executeNLQuery rejecting_engine stubborn_network (example_app (js ''q'') [])) =
     [GeneratedSQLCard (js ''SELECT x'') (js ''SELECT x''),
      SqlErrorAlert (js ''no such column: x''), AttemptingFix] \<and>
   queryHistory (executeNLQuery rejecting_engine stubborn_network (example_app (js ''q'') [])) =
     [js ''q'']"
proof -
  let ?st = "example_app (js ''q'') []"
  let ?s1 = "snd (getSchemaForLLM rejecting_engine (?st\<lparr>nlResults := [Spinner]\<rparr>))"
  let ?s2 = "snd (generateSQL stubborn_network (js ''q'') [] ?s1)"
  let ?s3 = "snd (db_exec rejecting_engine (js ''SELECT x'') ?s2)"
  let ?s4 = "snd (fixSQL stubborn_network (js ''SELECT x'') (js ''no such column: x'') [] ?s3)"
  have q: "trim (nlInput ?st) = js ''q''" by code_simp
  have p1: "trim (nlInput ?st) \<noteq> []" by code_simp
  have p2: "db ?st \<noteq> None" by (simp add: example_app_def)
  have p3: "apiKey (settings ?st) \<noteq> []" by code_simp
  have "fst (getSchemaForLLM rejecting_engine (?st\<lparr>nlResults := [Spinner]\<rparr>)) = Inr []"
    by code_simp
  then have h1: "getSchemaForLLM rejecting_engine (?st\<lparr>nlResults := [Spinner]\<rparr>) = (Inr [], ?s1)"
    by (simp add: prod_eq_iff)
  have "fst (generateSQL stubborn_network (js ''q'') [] ?s1) = Inr (js ''SELECT x'')"
    by code_simp
  then have h2: "generateSQL stubborn_network (trim (nlInput ?st)) [] ?s1 =
      (Inr (js ''SELECT x''), ?s2)"
    by (simp add: prod_eq_iff q)
  have "fst (db_exec rejecting_engine (js ''SELECT x'') ?s2) = Inl (js ''no such column: x'')"
    by code_simp
  then have h3: "db_exec rejecting_engine (js ''SELECT x'') ?s2 =
      (Inl (js ''no such column: x''), ?s3)"
    by (simp add: prod_eq_iff)
  have "fst (fixSQL stubborn_network (js ''SELECT x'') (js ''no such column: x'') [] ?s3) =
      Inr (js ''SELECT x'')"
    by code_simp
  then have h4: "fixSQL stubborn_network (js ''SELECT x'') (js ''no such column: x'') [] ?s3 =
      (Inr (js ''SELECT x''), ?s4)"
    by (simp add: prod_eq_iff)
  have esc: "escapeHtml (js ''SELECT x'') = js ''SELECT x''" by code_simp
  have hist: "queryHistory ?s4 = []" by code_simp
  note w = executeNLQuery_unchanged_repair [OF p1 p2 p3 h1 h2 h3 h4]
  from w show ?thesis
    by (simp add: addToHistory_def esc q hist)
qed

text \<open>
  C3. A run of \<^verbatim>\<open>executeNLQuery\<close> sends at most one repair request. When the first
  execution throws, it sends exactly one, and at most one more statement is executed
  after the failing one. When the fixed statement throws as well, the run ends there: the
  pane shows both errors and no request follows the repair request.
\<close>

theorem executeNLQuery_one_repair:
  "repair_calls (executeNLQuery E F st) \<le> repair_calls st + 1 \<and>
   (trim (nlInput st) \<noteq> [] \<and> db st \<noteq> None \<and> apiKey (settings st) \<noteq> [] \<and>
    getSchemaForLLM E (st\<lparr>nlResults := [Spinner]\<rparr>) = (Inr schema, st1) \<and>
    generateSQL F (trim (nlInput st)) schema st1 = (Inr sqlQuery, st2) \<and>
    db_exec E sqlQuery st2 = (Inl message, st3) \<longrightarrow>
      repair_calls (executeNLQuery E F st) = repair_calls st + 1 \<and>
      length (executed (executeNLQuery E F st)) \<le> length (executed st3) + 1 \<and>
      (\<forall>fixedSQL st4 fixError st5.
         fixSQL F sqlQuery message schema st3 = (Inr fixedSQL, st4) \<and>
         fixedSQL \<noteq> [] \<and> fixedSQL \<noteq> sqlQuery \<and>
         db_exec E fixedSQL st4 = (Inl fixError, st5) \<longrightarrow>
           executeNLQuery E F st =
             addToHistory (trim (nlInput st))
               (st5\<lparr>nlResults :=
                      [GeneratedSQLCard (escapeHtml sqlQuery) (escapeHtml sqlQuery),
                       SqlErrorAlert message, AttemptingFix,
                       FixedSQLCard (escapeHtml fixedSQL), FixedAlsoFailed fixError]\<rparr>) \<and>
           fetched (executeNLQuery E F st) = fetched st4))"
proof (intro conjI impI)
  show "repair_calls (executeNLQuery E F st) \<le> repair_calls st + 1"
    by (rule executeNLQuery_repair_calls)
next
  assume a: "trim (nlInput st) \<noteq> [] \<and> db st \<noteq> None \<and> apiKey (settings st) \<noteq> [] \<and>
    getSchemaForLLM E (st\<lparr>nlResults := [Spinner]\<rparr>) = (Inr schema, st1) \<and>
    generateSQL F (trim (nlInput st)) schema st1 = (Inr sqlQuery, st2) \<and>
    db_exec E sqlQuery st2 = (Inl message, st3)"
  then have pre: "trim (nlInput st) \<noteq> []" "db st \<noteq> None" "apiKey (settings st) \<noteq> []"
    and h1: "getSchemaForLLM E (st\<lparr>nlResults := [Spinner]\<rparr>) = (Inr schema, st1)"
    and h2: "generateSQL F (trim (nlInput st)) schema st1 = (Inr sqlQuery, st2)"
    and h3: "db_exec E sqlQuery st2 = (Inl message, st3)"
    by simp_all
  let ?html = "[GeneratedSQLCard (escapeHtml sqlQuery) (escapeHtml sqlQuery)]"
  let ?rep = "nl_repair E F sqlQuery schema message ?html st3"
  have run: "executeNLQuery E F st =
      (case ?rep of
         (Inl err, st') \<Rightarrow> st'\<lparr>nlResults := [ErrorAlert err]\<rparr>
       | (Inr html, st') \<Rightarrow> addToHistory (trim (nlInput st)) (st'\<lparr>nlResults := html\<rparr>))"
    by (simp add: executeNLQuery_run [OF pre] nl_pipeline_first_execution_fails [OF h1 h2 h3])
  have known: "known_provider (settings st3)"
    by (rule known_provider_after_generate [OF h2 h3])
  have rc1: "repair_calls st1 = repair_calls st"
    using getSchemaForLLM_repair_calls [of E "st\<lparr>nlResults := [Spinner]\<rparr>"] h1
    by (simp add: repair_calls_def)
  have rc2: "repair_calls st2 = repair_calls st1"
    using generateSQL_repair_calls [of F "trim (nlInput st)" schema st1] h2 by simp
  have rc3: "repair_calls st3 = repair_calls st2"
    using db_exec_repair_calls [of E sqlQuery st2] h3 by simp
  have "repair_calls (snd ?rep) = repair_calls st3 + 1"
    using known by (simp add: nl_repair_repair_calls)
  with rc1 rc2 rc3 have "repair_calls (snd ?rep) = repair_calls st + 1" by simp
  then show "repair_calls (executeNLQuery E F st) = repair_calls st + 1"
    unfolding run
    by (cases ?rep; cases "fst ?rep") (simp_all add: repair_calls_def addToHistory_def)
  obtain x st4 where f: "fixSQL F sqlQuery message schema st3 = (x, st4)"
    by (cases "fixSQL F sqlQuery message schema st3")
  have ex4: "executed st4 = executed st3"
    using callLLM_executed [of F "fix_prompt sqlQuery message schema" st3] f
    by (simp add: fixSQL_def)
  show "length (executed (executeNLQuery E F st)) \<le> length (executed st3) + 1"
  proof (cases x)
    case (Inl err)
    with f ex4 show ?thesis by (simp add: run nl_repair_def)
  next
    case (Inr fixedSQL)
    obtain y st5 where e: "db_exec E fixedSQL st4 = (y, st5)"
      by (cases "db_exec E fixedSQL st4")
    have "length (executed st5) \<le> length (executed st4) + 1"
      using db_exec_executed [of E fixedSQL st4] e by auto
    with f ex4 Inr e show ?thesis
      by (cases y) (simp_all add: run nl_repair_def Let_def addToHistory_def split: list.splits)
  qed
  show "\<forall>fixedSQL st4 fixError st5.
         fixSQL F sqlQuery message schema st3 = (Inr fixedSQL, st4) \<and>
         fixedSQL \<noteq> [] \<and> fixedSQL \<noteq> sqlQuery \<and>
         db_exec E fixedSQL st4 = (Inl fixError, st5) \<longrightarrow>
           executeNLQuery E F st =
             addToHistory (trim (nlInput st))
               (st5\<lparr>nlResults :=
                      [GeneratedSQLCard (escapeHtml sqlQuery) (escapeHtml sqlQuery),
                       SqlErrorAlert message, AttemptingFix,
                       FixedSQLCard (escapeHtml fixedSQL), FixedAlsoFailed fixError]\<rparr>) \<and>
           fetched (executeNLQuery E F st) = fetched st4"
  proof (intro allI impI)
    fix fixedSQL st4' fixError st5
    assume b: "fixSQL F sqlQuery message schema st3 = (Inr fixedSQL, st4') \<and>
         fixedSQL \<noteq> [] \<and> fixedSQL \<noteq> sqlQuery \<and>
         db_exec E fixedSQL st4' = (Inl fixError, st5)"
    then have "fetched st5 = fetched st4'"
      using db_exec_fetched [of E fixedSQL st4'] by simp
    with b show "executeNLQuery E F st =
             addToHistory (trim (nlInput st))
               (st5\<lparr>nlResults :=
                      [GeneratedSQLCard (escapeHtml sqlQuery) (escapeHtml sqlQuery),
                       SqlErrorAlert message, AttemptingFix,
                       FixedSQLCard (escapeHtml fixedSQL), FixedAlsoFailed fixError]\<rparr>) \<and>
           fetched (executeNLQuery E F st) = fetched st4'"
      by (simp add: run nl_repair_def addToHistory_def)
  qed
qed

text \<open>
  Witness for C3: the engine rejects \<^verbatim>\<open>SELECT x\<close> and \<^verbatim>\<open>SELECT y\<close>, the provider generates
  the first and repairs it into the second.
\<close>

theorem executeNLQuery_one_repair_witness:
  "repair_calls (executeNLQuery rejecting_both_engine second_try_network
      (example_app (js ''q'') [])) = 1 \<and>
   length (fetched (executeNLQuery rejecting_both_engine second_try_network
      (example_app (js ''q'') []))) = 2 \<and>
   nlResults (executeNLQuery rejecting_both_engine second_try_network
      (example_app (js ''q'') [])) =
     [GeneratedSQLCard (js ''SELECT x'') (js ''SELECT x''),
      SqlErrorAlert (js ''no such column: x''), AttemptingFix,
      FixedSQLCard (js ''SELECT y''), FixedAlsoFailed (js ''no such column: y'')]"
proof -
  let ?E = rejecting_both_engine
  let ?F = second_try_network
  let ?st = "example_app (js ''q'') []"
  let ?s1 = "snd (getSchemaForLLM ?E (?st\<lparr>nlResults := [Spinner]\<rparr>))"
  let ?s2 = "snd (generateSQL ?F (js ''q'') [] ?s1)"
  let ?s3 = "snd (db_exec ?E (js ''SELECT x'') ?s2)"
  let ?s4 = "snd (fixSQL ?F (js ''SELECT x'') (js ''no such column: x'') [] ?s3)"
  let ?s5 = "snd (db_exec ?E (js ''SELECT y'') ?s4)"
  have q: "trim (nlInput ?st) = js ''q''" by code_simp
  have p1: "trim (nlInput ?st) \<noteq> []" by code_simp
  have p2: "db ?st \<noteq> None" by (simp add: example_app_def)
  have p3: "apiKey (settings ?st) \<noteq> []" by code_simp
  have "fst (getSchemaForLLM ?E (?st\<lparr>nlResults := [Spinner]\<rparr>)) = Inr []"
    by code_simp
  then have h1: "getSchemaForLLM ?E (?st\<lparr>nlResults := [Spinner]\<rparr>) = (Inr [], ?s1)"
    by (simp add: prod_eq_iff)
  have "fst (generateSQL ?F (js ''q'') [] ?s1) = Inr (js ''SELECT x'')"
    by code_simp
  then have h2: "generateSQL ?F (trim (nlInput ?st)) [] ?s1 = (Inr (js ''SELECT x''), ?s2)"
    by (simp add: prod_eq_iff q)
  have "fst (db_exec ?E (js ''SELECT x'') ?s2) = Inl (js ''no such column: x'')"
    by code_simp
  then have h3: "db_exec ?E (js ''SELECT x'') ?s2 = (Inl (js ''no such column: x''), ?s3)"
    by (simp add: prod_eq_iff)
  have "fst (fixSQL ?F (js ''SELECT x'') (js ''no such column: x'') [] ?s3) =
      Inr (js ''SELECT y'')"
    by code_simp
  then have h4: "fixSQL ?F (js ''SELECT x'') (js ''no such column: x'') [] ?s3 =
      (Inr (js ''SELECT y''), ?s4)"
    by (simp add: prod_eq_iff)
  have "fst (db_exec ?E (js ''SELECT y'') ?s4) = Inl (js ''no such column: y'')"
    by code_simp
  then have h5: "db_exec ?E (js ''SELECT y'') ?s4 = (Inl (js ''no such column: y''), ?s5)"
    by (simp add: prod_eq_iff)
  have ne: "js ''SELECT y'' \<noteq> []" "js ''SELECT y'' \<noteq> js ''SELECT x''"
    by code_simp+
  have esc: "escapeHtml (js ''SELECT x'') = js ''SELECT x''"
    "escapeHtml (js ''SELECT y'') = js ''SELECT y''"
    by code_simp+
  have rc0: "repair_calls ?st = 0" by code_simp
  have f4: "length (fetched ?s4) = 2" by code_simp
  note w = executeNLQuery_one_repair [of ?E ?F ?st "[]" ?s1 "js ''SELECT x''" ?s2
      "js ''no such column: x''" ?s3]
  from w p1 p2 p3 h1 h2 h3 have
    a: "repair_calls (executeNLQuery ?E ?F ?st) = repair_calls ?st + 1" and
    b: "\<forall>fixedSQL st4 fixError st5.
         fixSQL ?F (js ''SELECT x'') (js ''no such column: x'') [] ?s3 = (Inr fixedSQL, st4) \<and>
         fixedSQL \<noteq> [] \<and> fixedSQL \<noteq> js ''SELECT x'' \<and>
         db_exec ?E fixedSQL st4 = (Inl fixError, st5) \<longrightarrow>
           executeNLQuery ?E ?F ?st =
             addToHistory (trim (nlInput ?st))
               (st5\<lparr>nlResults :=
                      [GeneratedSQLCard (escapeHtml (js ''SELECT x'')) (escapeHtml (js ''SELECT x'')),
                       SqlErrorAlert (js ''no such column: x''), AttemptingFix,
                       FixedSQLCard (escapeHtml fixedSQL), FixedAlsoFailed fixError]\<rparr>) \<and>
           fetched (executeNLQuery ?E ?F ?st) = fetched st4"
    by blast+
  from b h4 h5 ne have
    c: "executeNLQuery ?E ?F ?st =
             addToHistory (trim (nlInput ?st))
               (?s5\<lparr>nlResults :=
                      [GeneratedSQLCard (escapeHtml (js ''SELECT x'')) (escapeHtml (js ''SELECT x'')),
                       SqlErrorAlert (js ''no such column: x''), AttemptingFix,
                       FixedSQLCard (escapeHtml (js ''SELECT y'')),
                       FixedAlsoFailed (js ''no such column: y'')]\<rparr>)" and
    d: "fetched (executeNLQuery ?E ?F ?st) = fetched ?s4"
    by blast+
  have "nlResults (executeNLQuery ?E ?F ?st) =
     [GeneratedSQLCard (js ''SELECT x'') (js ''SELECT x''),
      SqlErrorAlert (js ''no such column: x''), AttemptingFix,
      FixedSQLCard (js ''SELECT y''), FixedAlsoFailed (js ''no such column: y'')]"
    by (simp only: c) (simp add: addToHistory_def esc)
  with a rc0 d f4 show ?thesis by simp
qed

text \<open>
  C2 fails on the code. The call of \<^verbatim>\<open>getExplanation\<close> stands inside the \<^verbatim>\<open>try\<close> block whose
  \<^verbatim>\<open>catch\<close> handles SQL errors, so a failure of the explanation is reported as an SQL error
  and sets off a repair request for a statement that ran well. In the example the first
  execution returns a row, the provider then answers every request with status 429: a
  repair request is sent after the failed explanation, its failure leaves the outer
  \<^verbatim>\<open>try\<close>, and the pane shows the error alone, without the generated SQL and its rows.
\<close>

theorem explain_failure_triggers_repair:
  "fst (db_exec select_engine (js ''SELECT 1'') (example_app (js ''q'') [])) =
     Inr [one_row (js ''1'') 1] \<and>
   map is_repair_request
     (fetched (executeNLQuery select_engine overloaded_network (example_app (js ''q'') []))) =
     [False, False, True] \<and>
   executed (executeNLQuery select_engine overloaded_network (example_app (js ''q'') [])) =
     [tables_query, js ''SELECT 1''] \<and>
   nlResults (executeNLQuery select_engine overloaded_network (example_app (js ''q'') [])) =
     [ErrorAlert (js ''OpenAI API error: Too Many Requests'')]"
proof -
  have "fst (db_exec select_engine (js ''SELECT 1'') (example_app (js ''q'') [])) =
     Inr [one_row (js ''1'') 1]"
    by code_simp
  moreover have "map is_repair_request
     (fetched (executeNLQuery select_engine overloaded_network (example_app (js ''q'') []))) =
     [False, False, True]"
    by code_simp
  moreover have
    "executed (executeNLQuery select_engine overloaded_network (example_app (js ''q'') [])) =
     [tables_query, js ''SELECT 1'']"
    by code_simp
  moreover have
    "nlResults (executeNLQuery select_engine overloaded_network (example_app (js ''q'') [])) =
     [ErrorAlert (js ''OpenAI API error: Too Many Requests'')]"
    by code_simp
  ultimately show ?thesis by simp
qed

section \<open>The SQL editor: statements in order, and the classification of results\<close>



















section \<open>The schema text and the explain prompt\<close>

lemma schema_tables_blocks:
  assumes "db st = Some d"
    and "\<forall>row\<in>set rows.
           E d (table_info_query (tmpl (at row 0))) = (Inr (cres row), d) \<and>
           E d (foreign_key_query (tmpl (at row 0))) = (Inr (fres row), d)"
  shows "fst (schema_tables E rows schema st) =
     Inr (schema @ concat (map (\<lambda>row. table_block (tmpl (at row 0)) (cres row) (fres row)) rows))"
  using assms
proof (induction rows arbitrary: schema st)
  case Nil
  show ?case by simp
next
  case (Cons row rows)
  let ?name = "tmpl (at row 0)"
  let ?st1 = "st\<lparr>db := Some d, executed := executed st @ [table_info_query ?name]\<rparr>"
  let ?st2 = "?st1\<lparr>db := Some d, executed := executed ?st1 @ [foreign_key_query ?name]\<rparr>"
  from Cons.prems(2) have
    c: "E d (table_info_query ?name) = (Inr (cres row), d)" and
    f: "E d (foreign_key_query ?name) = (Inr (fres row), d)" and
    rest: "\<forall>row\<in>set rows.
           E d (table_info_query (tmpl (at row 0))) = (Inr (cres row), d) \<and>
           E d (foreign_key_query (tmpl (at row 0))) = (Inr (fres row), d)"
    by simp_all
  have x1: "db_exec E (table_info_query ?name) st = (Inr (cres row), ?st1)"
    using Cons.prems(1) c by (rule db_exec_Some)
  have x2: "db_exec E (foreign_key_query ?name) ?st1 = (Inr (fres row), ?st2)"
    using f by (simp add: db_exec_def)
  have d2: "db ?st2 = Some d" by simp
  have IH: "fst (schema_tables E rows schema' ?st2) =
      Inr (schema' @
        concat (map (\<lambda>row. table_block (tmpl (at row 0)) (cres row) (fres row)) rows))"
    for schema'
    using d2 rest by (rule Cons.IH)
  have step: "schema_tables E (row # rows) schema st =
      schema_tables E rows (schema @ table_block ?name (cres row) (fres row)) ?st2"
    by (simp add: Let_def x1 x2 table_block_def split: list.splits)
  show ?case
    by (simp only: step IH) simp
qed

lemma getSchemaForLLM_text:
  assumes "db st = Some d"
    and "E d tables_query = (Inr (tables # others), d)"
    and "\<forall>row\<in>set (vals tables).
           E d (table_info_query (tmpl (at row 0))) = (Inr (cres row), d) \<and>
           E d (foreign_key_query (tmpl (at row 0))) = (Inr (fres row), d)"
  shows "fst (getSchemaForLLM E st) =
     Inr (concat (map (\<lambda>row. table_block (tmpl (at row 0)) (cres row) (fres row)) (vals tables)))"
proof -
  let ?st1 = "st\<lparr>db := Some d, executed := executed st @ [tables_query]\<rparr>"
  have x: "db_exec E tables_query st = (Inr (tables # others), ?st1)"
    using assms(1,2) by (rule db_exec_Some)
  have d1: "db ?st1 = Some d" by simp
  have "fst (schema_tables E (vals tables) [] ?st1) =
      Inr ([] @ concat (map (\<lambda>row. table_block (tmpl (at row 0)) (cres row) (fres row))
        (vals tables)))"
    using d1 assms(3) by (rule schema_tables_blocks)
  then show ?thesis
    using assms(1) by (simp add: getSchemaForLLM_def x)
qed

lemma column_line_row:
  "column_line [cid, CText cname, CText ctype, CNum notnull, dflt, CNum pk] =
     js ''  - '' @ cname @ js '' ('' @ ctype @ js '')'' @
     (if pk \<noteq> 0 then js '' PRIMARY KEY'' else []) @
     (if notnull \<noteq> 0 then js '' NOT NULL'' else []) @ newline"
  by (simp add: column_line_def at_def)

lemma fk_line_row:
  "fk_line [fid, seq, CText ftable, CText ffrom, CText fto, onUpdate, onDelete, fmatch] =
     js ''  - '' @ ffrom @ js '' -> '' @ ftable @ js ''.'' @ fto @ newline"
  by (simp add: fk_line_def at_def)

lemma table_block_bare: "table_block name [] [] = js ''Table: '' @ name @ newline @ newline"
  by (simp add: table_block_def)

text \<open>
  C8, as the specification states it, fails for a table whose column query returns no
  result object, which is how the engine answers for a table without columns: the code
  writes the header line and the blank line and no \<^verbatim>\<open>Columns:\<close> section.
\<close>

theorem schema_without_columns_counterexample:
  "fst (getSchemaForLLM bare_table_engine (example_app [] [])) =
     Inr (js ''Table: t\<newline>\<newline>'') \<and>
   \<not> sublist (js ''Columns:'') (js ''Table: t\<newline>\<newline>'')"
proof -
  have "fst (getSchemaForLLM bare_table_engine (example_app [] [])) =
     Inr (js ''Table: t\<newline>\<newline>'')"
    by code_simp
  moreover have "\<not> sublist (js ''Columns:'') (js ''Table: t\<newline>\<newline>'')"
    by code_simp
  ultimately show ?thesis by simp
qed

text \<open>
  C8, amended. Without tables the schema text is empty. Otherwise, when the catalogue
  queries leave the database as it is, the schema text is the concatenation, in the order of the table list, of one block for each table: the line
  \<^verbatim>\<open>Table: <name>\<close>; then, only when the column query returned a result object, the line
  \<^verbatim>\<open>Columns:\<close> and one line \<^verbatim>\<open>  - <name> (<type>)\<close> for each column, followed by
  \<^verbatim>\<open> PRIMARY KEY\<close> when \<^verbatim>\<open>pk\<close> is not 0 and by \<^verbatim>\<open> NOT NULL\<close> when \<^verbatim>\<open>notnull\<close> is not 0;
  then, only when the foreign-key query returned a result object with at least one row,
  the line \<^verbatim>\<open>Foreign Keys:\<close> and one line \<^verbatim>\<open>  - <column> -> <table>.<column>\<close> for each
  key; then an empty line. A table for which both queries return no result object is
  rendered as its header line and the empty line.
\<close>

theorem getSchemaForLLM_blocks:
  "(db st = Some d \<and> E d tables_query = (Inr [], d') \<longrightarrow>
      fst (getSchemaForLLM E st) = Inr []) \<and>
   (db st = Some d \<and> E d tables_query = (Inr (tables # others), d) \<and>
    (\<forall>row\<in>set (vals tables).
       E d (table_info_query (tmpl (at row 0))) = (Inr (cres row), d) \<and>
       E d (foreign_key_query (tmpl (at row 0))) = (Inr (fres row), d)) \<longrightarrow>
      fst (getSchemaForLLM E st) =
        Inr (concat (map (\<lambda>row. table_block (tmpl (at row 0)) (cres row) (fres row))
               (vals tables)))) \<and>
   table_block name [] [] = js ''Table: '' @ name @ newline @ newline \<and>
   column_line [cid, CText cname, CText ctype, CNum notnull, dflt, CNum pk] =
     js ''  - '' @ cname @ js '' ('' @ ctype @ js '')'' @
     (if pk \<noteq> 0 then js '' PRIMARY KEY'' else []) @
     (if notnull \<noteq> 0 then js '' NOT NULL'' else []) @ newline \<and>
   fk_line [fid, seq, CText ftable, CText ffrom, CText fto, onUpdate, onDelete, fmatch] =
     js ''  - '' @ ffrom @ js '' -> '' @ ftable @ js ''.'' @ fto @ newline"
proof (intro conjI impI)
  assume "db st = Some d \<and> E d tables_query = (Inr [], d')"
  then show "fst (getSchemaForLLM E st) = Inr []"
    by (simp add: getSchemaForLLM_def db_exec_def)
next
  assume a: "db st = Some d \<and> E d tables_query = (Inr (tables # others), d) \<and>
    (\<forall>row\<in>set (vals tables).
       E d (table_info_query (tmpl (at row 0))) = (Inr (cres row), d) \<and>
       E d (foreign_key_query (tmpl (at row 0))) = (Inr (fres row), d))"
  then have "db st = Some d" and "E d tables_query = (Inr (tables # others), d)"
    and "\<forall>row\<in>set (vals tables).
       E d (table_info_query (tmpl (at row 0))) = (Inr (cres row), d) \<and>
       E d (foreign_key_query (tmpl (at row 0))) = (Inr (fres row), d)"
    by simp_all
  then show "fst (getSchemaForLLM E st) =
        Inr (concat (map (\<lambda>row. table_block (tmpl (at row 0)) (cres row) (fres row))
               (vals tables)))"
    by (rule getSchemaForLLM_text)
next
  show "table_block name [] [] = js ''Table: '' @ name @ newline @ newline"
    by (rule table_block_bare)
  show "column_line [cid, CText cname, CText ctype, CNum notnull, dflt, CNum pk] =
     js ''  - '' @ cname @ js '' ('' @ ctype @ js '')'' @
     (if pk \<noteq> 0 then js '' PRIMARY KEY'' else []) @
     (if notnull \<noteq> 0 then js '' NOT NULL'' else []) @ newline"
    by (rule column_line_row)
  show "fk_line [fid, seq, CText ftable, CText ffrom, CText fto, onUpdate, onDelete, fmatch] =
     js ''  - '' @ ffrom @ js '' -> '' @ ftable @ js ''.'' @ fto @ newline"
    by (rule fk_line_row)
qed

text \<open>
  Witness for C8: a database without tables, and one with a table \<^verbatim>\<open>orders\<close> that has a
  primary key, a required column and a foreign key.
\<close>

theorem getSchemaForLLM_blocks_witness:
  "fst (getSchemaForLLM rejecting_engine (example_app [] [])) = Inr [] \<and>
   fst (getSchemaForLLM orders_engine (example_app [] [])) =
     Inr (js ''Table: orders\<newline>Columns:\<newline>  - id (INTEGER) PRIMARY KEY\<newline>  - customer_id (INTEGER) NOT NULL\<newline>Foreign Keys:\<newline>  - customer_id -> customers.id\<newline>\<newline>'')"
proof -
  let ?st = "example_app [] []"
  have d: "db ?st = Some ()" by (simp add: example_app_def)
  have "tables_query \<noteq> js ''SELECT x''" by code_simp
  then have t0: "rejecting_engine () tables_query = (Inr [], ())"
    by (simp add: rejecting_engine_def)
  have t: "orders_engine () tables_query = (Inr (orders_tables # []), ())"
    by (simp add: orders_engine_def)
  have n: "tmpl (at [CText (js ''orders'')] 0) = js ''orders''" by (simp add: at_def)
  have "table_info_query (js ''orders'') \<noteq> tables_query"
    "foreign_key_query (js ''orders'') \<noteq> tables_query"
    "foreign_key_query (js ''orders'') \<noteq> table_info_query (js ''orders'')"
    by code_simp+
  then have q:
    "orders_engine () (table_info_query (js ''orders'')) = (Inr [orders_columns], ())"
    "orders_engine () (foreign_key_query (js ''orders'')) = (Inr [orders_foreign_keys], ())"
    by (simp_all add: orders_engine_def)
  have r: "\<forall>row\<in>set (vals orders_tables).
      orders_engine () (table_info_query (tmpl (at row 0))) = (Inr [orders_columns], ()) \<and>
      orders_engine () (foreign_key_query (tmpl (at row 0))) = (Inr [orders_foreign_keys], ())"
    by (simp add: orders_tables_def n q)
  have b: "concat (map (\<lambda>row. table_block (tmpl (at row 0)) [orders_columns] [orders_foreign_keys])
        (vals orders_tables)) =
      js ''Table: orders\<newline>Columns:\<newline>  - id (INTEGER) PRIMARY KEY\<newline>  - customer_id (INTEGER) NOT NULL\<newline>Foreign Keys:\<newline>  - customer_id -> customers.id\<newline>\<newline>''"
    by code_simp
  note w0 = getSchemaForLLM_blocks [where E = rejecting_engine and st = ?st and d = "()" and
      d' = "()"]
  note w = getSchemaForLLM_blocks [where E = orders_engine and st = ?st and d = "()" and
      tables = orders_tables and others = "[]" and cres = "\<lambda>row. [orders_columns]" and
      fres = "\<lambda>row. [orders_foreign_keys]"]
  from w0 d t0 have a: "fst (getSchemaForLLM rejecting_engine ?st) = Inr []" by blast
  from w d t r have "fst (getSchemaForLLM orders_engine ?st) =
      Inr (concat (map (\<lambda>row. table_block (tmpl (at row 0)) [orders_columns] [orders_foreign_keys])
        (vals orders_tables)))"
    by blast
  with a b show ?thesis by simp
qed

lemma sublist_join: "x \<in> set xs \<Longrightarrow> sublist x (join sep xs)"
proof (induction sep xs rule: join.induct)
  case (1 sep)
  then show ?case by simp
next
  case (2 sep y)
  then show ?case by simp
next
  case (3 sep y z zs)
  show ?case
  proof (cases "x = y")
    case True
    then show ?thesis by (simp add: sublist_append_rightI)
  next
    case False
    with 3 have "sublist x (join sep (z # zs))" by simp
    then obtain ps ss where "join sep (z # zs) = ps @ x @ ss"
      by (auto simp: sublist_def)
    then have "join sep (y # z # zs) = (y @ sep @ ps) @ x @ ss" by simp
    then show ?thesis unfolding sublist_def by blast
  qed
qed

lemma explain_prompt_take:
  "explain_prompt question sqlQuery (results\<lparr>vals := take 5 (vals results)\<rparr>) =
     explain_prompt question sqlQuery results"
  by (simp add: explain_prompt_def resultsPreview_def)

lemma sublist_preview: "sublist (resultsPreview results) (explain_prompt question sqlQuery results)"
  unfolding explain_prompt_def sublist_def by (metis append.assoc)

lemma sublist_question: "sublist question (explain_prompt question sqlQuery results)"
  unfolding explain_prompt_def sublist_def by (metis append.assoc)

lemma sublist_columns:
  "sublist (join (js '', '') (columns results)) (explain_prompt question sqlQuery results)"
  unfolding explain_prompt_def sublist_def by (metis append.assoc)

text \<open>
  C9. The explain prompt is built from the first five rows only: rows after the fifth do
  not change it. The preview joins the cells of each of these rows with a comma and a
  space, and the rows with line feeds; a text cell is taken as it is, without escaping.
  The prompt contains the preview, each of its rows, the column names joined the same way
  and the question; \<^verbatim>\<open>getExplanation\<close> sends this prompt.
\<close>

theorem explain_prompt_first_five_rows:
  "explain_prompt question sqlQuery (results\<lparr>vals := take 5 (vals results)\<rparr>) =
     explain_prompt question sqlQuery results \<and>
   resultsPreview results =
     join newline (map (\<lambda>row. join (js '', '') (map cell_joined row)) (take 5 (vals results))) \<and>
   sublist (resultsPreview results) (explain_prompt question sqlQuery results) \<and>
   (\<forall>i < min 5 (length (vals results)).
      sublist (join (js '', '') (map cell_joined (vals results ! i))) (resultsPreview results)) \<and>
   cell_joined (CText t) = t \<and>
   sublist question (explain_prompt question sqlQuery results) \<and>
   sublist (join (js '', '') (columns results)) (explain_prompt question sqlQuery results) \<and>
   (known_provider (settings st) \<longrightarrow>
      (\<exists>req. fetched (snd (getExplanation F question sqlQuery results st)) = fetched st @ [req] \<and>
             prompt_of req = explain_prompt question sqlQuery results))"
proof (intro conjI allI impI)
  show "explain_prompt question sqlQuery (results\<lparr>vals := take 5 (vals results)\<rparr>) =
     explain_prompt question sqlQuery results"
    by (rule explain_prompt_take)
  show "resultsPreview results =
     join newline (map (\<lambda>row. join (js '', '') (map cell_joined row)) (take 5 (vals results)))"
    by (simp add: resultsPreview_def)
  show "sublist (resultsPreview results) (explain_prompt question sqlQuery results)"
    by (rule sublist_preview)
  show "sublist (join (js '', '') (map cell_joined (vals results ! i))) (resultsPreview results)"
    if "i < min 5 (length (vals results))" for i
  proof -
    from that have "vals results ! i = take 5 (vals results) ! i"
      and "i < length (take 5 (vals results))"
      by simp_all
    then have "join (js '', '') (map cell_joined (vals results ! i)) \<in>
        set (map (\<lambda>row. join (js '', '') (map cell_joined row)) (take 5 (vals results)))"
      by (metis (no_types, lifting) length_map nth_map nth_mem)
    then show ?thesis
      unfolding resultsPreview_def by (rule sublist_join)
  qed
  show "cell_joined (CText t) = t" by simp
  show "sublist question (explain_prompt question sqlQuery results)"
    by (rule sublist_question)
  show "sublist (join (js '', '') (columns results)) (explain_prompt question sqlQuery results)"
    by (rule sublist_columns)
  assume "known_provider (settings st)"
  then obtain req where
    "snd (callLLM F (explain_prompt question sqlQuery results) st) =
       st\<lparr>fetched := fetched st @ [req]\<rparr>"
    "prompt_of req = explain_prompt question sqlQuery results"
    using callLLM_known by blast
  then show "\<exists>req. fetched (snd (getExplanation F question sqlQuery results st)) =
      fetched st @ [req] \<and> prompt_of req = explain_prompt question sqlQuery results"
    by (intro exI [where x = req]) (simp add: getExplanation_def)
qed

text \<open>Witness for C9: a result of six rows, of which the sixth does not reach the prompt.\<close>

theorem explain_prompt_first_five_rows_witness:
  "resultsPreview six_rows =
     js ''1, a<b\<newline>2, \<newline>3, c\<newline>4, d\<newline>5, e'' \<and>
   sublist (js ''1, a<b'') (resultsPreview six_rows) \<and>
   known_provider (settings (example_app (js ''q'') [])) \<and>
   map prompt_of
     (fetched (snd (getExplanation stubborn_network (js ''q'') (js ''SELECT 1'') six_rows
        (example_app (js ''q'') [])))) =
     [explain_prompt (js ''q'') (js ''SELECT 1'') six_rows]"
proof -
  let ?st = "example_app (js ''q'') []"
  have k: "known_provider (settings ?st)" by code_simp
  have f: "fetched ?st = []" by (simp add: example_app_def)
  have p: "resultsPreview six_rows = js ''1, a<b\<newline>2, \<newline>3, c\<newline>4, d\<newline>5, e''"
    by code_simp
  have i: "(0::nat) < min 5 (length (vals six_rows))" by (simp add: six_rows_def)
  have r: "join (js '', '') (map cell_joined (vals six_rows ! 0)) = js ''1, a<b''"
    by code_simp
  note w = explain_prompt_first_five_rows [of "js ''q''" "js ''SELECT 1''" six_rows _ ?st
      stubborn_network]
  from w i have "sublist (join (js '', '') (map cell_joined (vals six_rows ! 0)))
      (resultsPreview six_rows)"
    by blast
  with r have a: "sublist (js ''1, a<b'') (resultsPreview six_rows)" by simp
  from w k obtain req where
    "fetched (snd (getExplanation stubborn_network (js ''q'') (js ''SELECT 1'') six_rows ?st)) =
       fetched ?st @ [req]"
    "prompt_of req = explain_prompt (js ''q'') (js ''SELECT 1'') six_rows"
    by blast
  with f have b: "map prompt_of
     (fetched (snd (getExplanation stubborn_network (js ''q'') (js ''SELECT 1'') six_rows ?st))) =
     [explain_prompt (js ''q'') (js ''SELECT 1'') six_rows]"
    by simp
  from p a k b show ?thesis by simp
qed

section \<open>Response cleaning returns the first fenced block\<close>

text \<open>
  The backtracking match of the pattern is characterised part by part, from its end, in
  terms of \<open>split_fence\<close>: what the lazy group captures is the text up to the next fence,
  less one line feed before it.
\<close>

lemma fence_unfold: "fence = [0x60, 0x60, 0x60]"
  by (simp add: fence_def js_def)

lemma newline_unfold: "newline = [0xA]"
  by (simp add: newline_def js_def)

lemma is_space_not_backtick: "is_space c \<Longrightarrow> c \<noteq> 0x60"
  by (auto simp: is_space_def)

lemma is_space_nl: "is_space 0xA"
  by (simp add: is_space_def)

lemma split_fence_Nil_iff: "split_fence s = Some ([], r) \<longleftrightarrow> prefix fence s \<and> r = drop 3 s"
  by (cases s) (auto simp: fence_unfold split: prod.splits)

lemma split_fence_not_backtick:
  "c \<noteq> 0x60 \<Longrightarrow> split_fence (c # cs) = map_option (\<lambda>(body, rest). (c # body, rest)) (split_fence cs)"
  by (simp add: fence_unfold)

lemma block_end_Cons:
  "re_block_end cap (c # cs) =
     (if prefix fence (c # cs) \<or> (c = 0xA \<and> prefix fence cs) then Some cap else None)"
  by (auto simp: re_block_end_def re_opt_def re_lit_def newline_unfold fence_unfold)

lemma block_end_Nil: "re_block_end cap [] = None"
  by (simp add: re_block_end_def re_opt_def re_lit_def newline_unfold fence_unfold)

lemma lazy_group_split:
  "re_lazy_group (\<lambda>c. True) re_block_end cap s =
     map_option (\<lambda>(body, rest). cap @ chop_nl body) (split_fence s)"
proof (induction s arbitrary: cap)
  case Nil
  show ?case by (simp add: block_end_Nil)
next
  case (Cons c cs)
  show ?case
  proof (cases "prefix fence (c # cs)")
    case True
    then show ?thesis by (simp add: block_end_Cons chop_nl_def)
  next
    case nf: False
    show ?thesis
    proof (cases "c = 0xA \<and> prefix fence cs")
      case True
      then have "split_fence cs = Some ([], drop 3 cs)"
        by (simp add: split_fence_Nil_iff)
      with True nf show ?thesis
        by (simp add: block_end_Cons chop_nl_def)
    next
      case False
      have chop: "chop_nl (c # b) = c # chop_nl b" if "split_fence cs = Some (b, r)" for b r
      proof (cases b)
        case Nil
        with that have "prefix fence cs" by (simp add: split_fence_Nil_iff)
        with False have "c \<noteq> 0xA" by simp
        with Nil show ?thesis by (simp add: chop_nl_def)
      next
        case (Cons x xs)
        then show ?thesis by (simp add: chop_nl_def)
      qed
      from False nf have "re_block_end cap (c # cs) = None"
        by (auto simp: block_end_Cons)
      then show ?thesis using nf Cons.IH [of "cap @ [c]"]
        by (cases "split_fence cs") (auto simp: chop)
    qed
  qed
qed

lemma block_body_split:
  "re_block_body s = map_option (\<lambda>(body, rest). chop_nl body) (split_fence s)"
  by (simp add: re_block_body_def lazy_group_split)

lemma opt_newline_body_Nil: "re_opt (re_lit newline) re_block_body [] = None"
  by (simp add: re_opt_def re_lit_def newline_unfold block_body_split)

lemma opt_newline_body_Cons:
  "re_opt (re_lit newline) re_block_body (c # cs) =
     (if c = 0xA
      then (case re_block_body cs of Some r \<Rightarrow> Some r | None \<Rightarrow> re_block_body (c # cs))
      else re_block_body (c # cs))"
  by (simp add: re_opt_def re_lit_def newline_unfold)

lemma split_fence_None_tl: "split_fence (c # cs) = None \<Longrightarrow> split_fence cs = None"
  by (simp split: if_splits)

lemma opt_newline_body_None:
  assumes "split_fence s = None"
  shows "re_opt (re_lit newline) re_block_body s = None"
proof (cases s)
  case Nil
  then show ?thesis by (simp add: opt_newline_body_Nil)
next
  case (Cons c cs)
  with assms have "re_block_body (c # cs) = None" "re_block_body cs = None"
    by (simp_all only: block_body_split split_fence_None_tl option.map)
  with Cons show ?thesis by (simp only: opt_newline_body_Cons option.case if_cancel)
qed

lemma opt_newline_body_other:
  "c \<noteq> 0xA \<Longrightarrow> re_opt (re_lit newline) re_block_body (c # cs) = re_block_body (c # cs)"
  by (simp only: opt_newline_body_Cons if_False)

lemma block_space_Nil: "re_block_space [] = None"
  by (simp add: re_block_space_def opt_newline_body_Nil)

lemma block_space_Cons:
  "re_block_space (c # cs) =
     (if is_space c
      then (case re_block_space cs of
              Some r \<Rightarrow> Some r
            | None \<Rightarrow> re_opt (re_lit newline) re_block_body (c # cs))
      else re_opt (re_lit newline) re_block_body (c # cs))"
  by (simp add: re_block_space_def)

lemma block_space_split:
  "re_block_space r =
     map_option (\<lambda>(body, rest). chop_nl (dropWhile is_space body)) (split_fence r)"
proof (induction r)
  case Nil
  show ?case by (simp add: block_space_Nil)
next
  case (Cons c cs)
  show ?case
  proof (cases "is_space c")
    case True
    then have nb: "c \<noteq> 0x60" by (rule is_space_not_backtick)
    show ?thesis
    proof (cases "split_fence cs")
      case None
      with nb have "split_fence (c # cs) = None"
        by (simp add: split_fence_not_backtick del: split_fence.simps)
      with None True Cons.IH show ?thesis
        by (simp add: block_space_Cons opt_newline_body_None del: split_fence.simps)
    next
      case (Some p)
      with True nb Cons.IH show ?thesis
        by (cases p) (simp add: block_space_Cons split_fence_not_backtick del: split_fence.simps)
    qed
  next
    case False
    then have "c \<noteq> 0xA" using is_space_nl by auto
    have "dropWhile is_space b = b" if "split_fence (c # cs) = Some (b, r)" for b r
      using that False by (cases b) (auto split: if_splits)
    with False \<open>c \<noteq> 0xA\<close> show ?thesis
      by (cases "split_fence (c # cs)")
        (auto simp: block_space_Cons opt_newline_body_other block_body_split
          simp del: split_fence.simps)
  qed
qed

lemma split_fence_drop_None: "split_fence s = None \<Longrightarrow> split_fence (drop n s) = None"
proof (induction n arbitrary: s)
  case 0
  then show ?case by simp
next
  case (Suc n)
  then show ?case by (cases s) (auto split: if_splits)
qed

lemma split_fence_rest:
  "split_fence s = Some (b, r) \<Longrightarrow> r = drop (Suc (Suc (Suc (length b)))) s"
  by (induction s arbitrary: b) (auto simp: numeral_3_eq_3 split: if_splits)

lemma sql_unfold: "js ''sql'' = [0x73, 0x71, 0x6C]" "js ''SQL'' = [0x53, 0x51, 0x4C]"
  by (simp_all add: js_def)

lemma split_fence_strip_tag_None:
  "split_fence (strip_tag r) = None \<longleftrightarrow> split_fence r = None"
proof
  assume "split_fence r = None"
  then show "split_fence (strip_tag r) = None"
    by (simp add: strip_tag_def split_fence_drop_None)
next
  assume a: "split_fence (strip_tag r) = None"
  show "split_fence r = None"
  proof (cases "prefix (js ''sql'') r \<or> prefix (js ''SQL'') r")
    case False
    with a show ?thesis by (simp add: strip_tag_def)
  next
    case True
    then obtain x y z r' where r: "r = x # y # z # r'" and nb: "x \<noteq> 0x60" "y \<noteq> 0x60" "z \<noteq> 0x60"
      by (auto simp: sql_unfold prefix_def)
    from True a r have "split_fence r' = None" by (simp add: strip_tag_def)
    with nb show ?thesis unfolding r
      by (simp add: split_fence_not_backtick del: split_fence.simps)
  qed
qed

lemma tag_then_space:
  "re_opt (re_alt (re_lit (js ''sql'')) (re_lit (js ''SQL''))) re_block_space r =
     re_block_space (strip_tag r)"
proof (cases "prefix (js ''sql'') r \<or> prefix (js ''SQL'') r")
  case False
  then show ?thesis by (simp add: re_opt_def re_alt_def re_lit_def strip_tag_def)
next
  case True
  have len: "length (js ''sql'') = 3" "length (js ''SQL'') = 3" by (simp_all add: js_def)
  show ?thesis
  proof (cases "re_block_space (drop 3 r)")
    case (Some a)
    with True show ?thesis
      by (auto simp: re_opt_def re_alt_def re_lit_def strip_tag_def len)
  next
    case None
    then have "split_fence (strip_tag r) = None"
      using True by (simp add: block_space_split strip_tag_def)
    then have "split_fence r = None" by (simp add: split_fence_strip_tag_None)
    then have "re_block_space r = None" by (simp add: block_space_split)
    with None True show ?thesis
      by (auto simp: re_opt_def re_alt_def re_lit_def strip_tag_def len)
  qed
qed

lemma codeblockRegex_at:
  "codeblockRegex s =
     (if prefix fence s
      then map_option (\<lambda>(body, rest). chop_nl (dropWhile is_space body))
             (split_fence (strip_tag (drop 3 s)))
      else None)"
proof -
  have "length fence = 3" by (simp add: fence_unfold)
  then show ?thesis
    by (simp add: codeblockRegex_def re_lit_def tag_then_space block_space_split)
qed

lemma regex_exec_codeblock:
  "regex_exec codeblockRegex s =
     (case split_fence s of
        None \<Rightarrow> None
      | Some (before, r) \<Rightarrow>
          map_option (\<lambda>(body, rest). chop_nl (dropWhile is_space body))
            (split_fence (strip_tag r)))"
proof (induction s)
  case Nil
  have "codeblockRegex [] = None" by (simp add: codeblockRegex_at [of "[]"] fence_unfold)
  then show ?case by simp
next
  case (Cons c cs)
  note at = codeblockRegex_at [of "c # cs"]
  show ?case
  proof (cases "prefix fence (c # cs)")
    case False
    with at have "codeblockRegex (c # cs) = None" by simp
    with False Cons.IH show ?thesis
      by (cases "split_fence cs") auto
  next
    case True
    show ?thesis
    proof (cases "split_fence (strip_tag (drop 3 (c # cs)))")
      case (Some p)
      with True at have "codeblockRegex (c # cs) =
          Some ((\<lambda>(body, rest). chop_nl (dropWhile is_space body)) p)"
        by simp
      with True Some show ?thesis by simp
    next
      case None
      then have n3: "split_fence (drop 3 (c # cs)) = None"
        by (simp only: split_fence_strip_tag_None)
      have "regex_exec codeblockRegex cs = None"
      proof (cases "split_fence cs")
        case None
        with Cons.IH show ?thesis by simp
      next
        case (Some p)
        obtain b r where p: "p = (b, r)" by (cases p)
        with Some have "r = drop (Suc (Suc (Suc (length b)))) cs" by (simp add: split_fence_rest)
        then have "r = drop (Suc (length b)) (drop 3 (c # cs))" by (simp add: numeral_3_eq_3)
        with n3 have "split_fence r = None" by (simp only: split_fence_drop_None)
        then have "split_fence (strip_tag r) = None" by (simp only: split_fence_strip_tag_None)
        with Some p Cons.IH show ?thesis by simp
      qed
      moreover from True None at have "codeblockRegex (c # cs) = None" by simp
      ultimately show ?thesis using True None by simp
    qed
  qed
qed

lemma trim_dropWhile: "trim (dropWhile is_space b) = trim b"
  by (simp add: trim_def)

lemma trim_snoc_space: "is_space c \<Longrightarrow> trim (b @ [c]) = trim b"
proof (cases "\<forall>x\<in>set b. is_space x")
  case True
  assume "is_space c"
  with True have "dropWhile is_space (b @ [c]) = []" "dropWhile is_space b = []"
    by (auto simp: dropWhile_eq_Nil_conv dest: set_dropWhileD)
  then show ?thesis by (simp only: trim_def)
next
  case False
  assume c: "is_space c"
  from False obtain x where "x \<in> set b" "\<not> is_space x" by blast
  then have "dropWhile is_space (b @ [c]) = dropWhile is_space b @ [c]"
    by (rule dropWhile_append1)
  with c show ?thesis by (simp add: trim_def)
qed

lemma trim_chop_nl: "trim (chop_nl b) = trim b"
proof (cases "b \<noteq> [] \<and> last b = 0xA")
  case False
  then show ?thesis by (auto simp: chop_nl_def)
next
  case True
  then have "b = butlast b @ [0xA]" by (metis append_butlast_last_id)
  then have "trim b = trim (butlast b)"
    using trim_snoc_space [OF is_space_nl, of "butlast b"] by simp
  with True show ?thesis by (simp add: chop_nl_def)
qed

text \<open>
  C5. \<^verbatim>\<open>cleanLLMResponse\<close> returns the trimmed content of the first fenced block when the
  response has one: the text between the first fence, with its optional tag \<^verbatim>\<open>sql\<close> or
  \<^verbatim>\<open>SQL\<close>, and the next fence. Without such a block, and so without any fence, it returns
  the trimmed response. The three examples of the specification are instances; of two
  fenced blocks only the first is returned.
\<close>

theorem cleanLLMResponse_first_fenced_block:
  "cleanLLMResponse s =
     (case first_fenced_block s of Some content \<Rightarrow> trim content | None \<Rightarrow> trim s) \<and>
   (split_fence s = None \<longrightarrow> cleanLLMResponse s = trim s) \<and>
   cleanLLMResponse (js ''```sql\<newline>SELECT 1;\<newline>```'') = js ''SELECT 1;'' \<and>
   cleanLLMResponse (js ''no fence here'') = js ''no fence here'' \<and>
   cleanLLMResponse (js ''Try ```sql\<newline>SELECT 1;\<newline>``` or ```sql\<newline>SELECT 2;\<newline>```'') =
     js ''SELECT 1;''"
proof -
  have spec: "cleanLLMResponse s =
      (case first_fenced_block s of Some content \<Rightarrow> trim content | None \<Rightarrow> trim s)"
  proof (cases "s = []")
    case True
    then show ?thesis by (simp add: cleanLLMResponse_def first_fenced_block_def trim_def)
  next
    case False
    then show ?thesis
      by (auto simp: cleanLLMResponse_def first_fenced_block_def regex_exec_codeblock
          trim_chop_nl trim_dropWhile split: option.splits)
  qed
  moreover have "split_fence s = None \<longrightarrow> cleanLLMResponse s = trim s"
    by (simp add: spec first_fenced_block_def)
  moreover have "cleanLLMResponse (js ''```sql\<newline>SELECT 1;\<newline>```'') = js ''SELECT 1;''"
    by code_simp
  moreover have "cleanLLMResponse (js ''no fence here'') = js ''no fence here''"
    by code_simp
  moreover have
    "cleanLLMResponse (js ''Try ```sql\<newline>SELECT 1;\<newline>``` or ```sql\<newline>SELECT 2;\<newline>```'') =
       js ''SELECT 1;''"
    by code_simp
  ultimately show ?thesis by blast
qed

theorem cleanLLMResponse_first_fenced_block_witness:
  "split_fence (js ''  SELECT 2  '') = None \<and>
   first_fenced_block (js ''x ```SQL SELECT 3``` y'') = Some (js '' SELECT 3'') \<and>
   cleanLLMResponse (js ''  SELECT 2  '') = js ''SELECT 2'' \<and>
   cleanLLMResponse (js ''x ```SQL SELECT 3``` y'') = js ''SELECT 3''"
proof -
  have a: "split_fence (js ''  SELECT 2  '') = None"
    by (simp add: js_def fence_def)
  have b: "first_fenced_block (js ''x ```SQL SELECT 3``` y'') = Some (js '' SELECT 3'')"
    by (simp add: first_fenced_block_def strip_tag_def js_def fence_def)
  have c: "trim (js ''  SELECT 2  '') = js ''SELECT 2''"
    by (simp add: trim_def js_def is_space_def)
  have d: "trim (js '' SELECT 3'') = js ''SELECT 3''"
    by (simp add: trim_def js_def is_space_def)
  have "cleanLLMResponse (js ''  SELECT 2  '') = trim (js ''  SELECT 2  '')"
    using cleanLLMResponse_first_fenced_block [of "js ''  SELECT 2  ''"] a by blast
  moreover have "cleanLLMResponse (js ''x ```SQL SELECT 3``` y'') =
      (case first_fenced_block (js ''x ```SQL SELECT 3``` y'') of
         Some content \<Rightarrow> trim content
       | None \<Rightarrow> trim (js ''x ```SQL SELECT 3``` y''))"
    using cleanLLMResponse_first_fenced_block [of "js ''x ```SQL SELECT 3``` y''"] by blast
  ultimately show ?thesis using a b c d by simp
qed
section \<open>Escaping and the unescaping chain\<close>











end
